theory Spec2Isabelle
  imports Complex_Main
begin

section \<open>Pursuit simulation of \<^verbatim>\<open>src/main.ts\<close>\<close>

text \<open>
  The simulation core of \<^verbatim>\<open>main.ts\<close> (classes \<^verbatim>\<open>Spaceship\<close>, \<^verbatim>\<open>Pursuer\<close>,
  \<^verbatim>\<open>Settings\<close>, \<^verbatim>\<open>Simulation\<close>) is embedded over an explicit store of vector objects:
  every \<^verbatim>\<open>THREE.Vector3\<close> is a cell of the store, a field of vector type holds the
  address of its cell, and the vector methods mutate the cell of their receiver in place,
  as the library does. The classes are embedded in exact real arithmetic first. The two
  methods whose specification bounds the length of a vector, \<^verbatim>\<open>Pursuer.update\<close> and
  \<^verbatim>\<open>Pursuer.pursueTarget\<close>, are embedded a second time with every arithmetic operation
  rounded to double precision, as JavaScript numbers are; infinities, NaN and subnormal
  numbers are outside both models.
\<close>

subsection \<open>Vector values\<close>

datatype vec3 = Vector3 (vec_x: real) (vec_y: real) (vec_z: real)

text \<open>
  Modelled from the spec: the vector primitives (\<^verbatim>\<open>THREE.Vector3\<close>: add, sub,
  multiplyScalar, divideScalar, length, normalize, clampLength, setScalar) belong to an
  external library that is not under src/. The spec names them (add, scale, normalize,
  clamp-length) and fixes their edge cases: normalize yields the zero vector on the zero
  vector, and a length clamp scales the vector down if the bound is exceeded and leaves
  it unchanged otherwise. The definitions follow the library's formulas:
  \<^verbatim>\<open>divideScalar(s) = multiplyScalar(1 / s)\<close>,
  \<^verbatim>\<open>normalize() = divideScalar(length() || 1)\<close>,
  \<^verbatim>\<open>clampLength(min, max) = divideScalar(length || 1).multiplyScalar(max(min, min(max, length)))\<close>.
  Both divisions are by a non-zero number, as \<^verbatim>\<open>length || 1\<close> is.
\<close>

definition addV :: "vec3 \<Rightarrow> vec3 \<Rightarrow> vec3" where
  "addV a b = Vector3 (vec_x a + vec_x b) (vec_y a + vec_y b) (vec_z a + vec_z b)"

definition subV :: "vec3 \<Rightarrow> vec3 \<Rightarrow> vec3" where
  "subV a b = Vector3 (vec_x a - vec_x b) (vec_y a - vec_y b) (vec_z a - vec_z b)"

definition multiplyScalar :: "vec3 \<Rightarrow> real \<Rightarrow> vec3" where
  "multiplyScalar v s = Vector3 (vec_x v * s) (vec_y v * s) (vec_z v * s)"

definition divideScalar :: "vec3 \<Rightarrow> real \<Rightarrow> vec3" where
  "divideScalar v s = multiplyScalar v (1 / s)"

definition lengthV :: "vec3 \<Rightarrow> real" where
  "lengthV v = sqrt (vec_x v * vec_x v + vec_y v * vec_y v + vec_z v * vec_z v)"

definition length_or_1 :: "vec3 \<Rightarrow> real" where
  "length_or_1 v = (if lengthV v = 0 then 1 else lengthV v)"

definition normalizeV :: "vec3 \<Rightarrow> vec3" where
  "normalizeV v = divideScalar v (length_or_1 v)"

definition clampLength :: "vec3 \<Rightarrow> real \<Rightarrow> real \<Rightarrow> vec3" where
  "clampLength v mn mx =
     multiplyScalar (divideScalar v (length_or_1 v)) (max mn (min mx (lengthV v)))"

definition setScalar :: "real \<Rightarrow> vec3" where
  "setScalar s = Vector3 s s s"

subsection \<open>The store of vector objects\<close>

type_synonym ref = nat

record store =
  cells :: "ref \<Rightarrow> vec3"
  fresh :: ref

definition empty_store :: store where
  "empty_store = \<lparr>cells = (\<lambda>_. Vector3 0 0 0), fresh = 0\<rparr>"

text \<open>\<^verbatim>\<open>new THREE.Vector3(a, b, c)\<close>: a fresh cell.\<close>

definition Vector3_new :: "real \<Rightarrow> real \<Rightarrow> real \<Rightarrow> store \<Rightarrow> ref \<times> store" where
  "Vector3_new a b c h =
     (fresh h, \<lparr>cells = (cells h)(fresh h := Vector3 a b c), fresh = Suc (fresh h)\<rparr>)"

text \<open>\<^verbatim>\<open>v.clone()\<close>: a fresh cell with the components of \<open>v\<close>.\<close>

definition Vector3_clone :: "ref \<Rightarrow> store \<Rightarrow> ref \<times> store" where
  "Vector3_clone this h =
     Vector3_new (vec_x (cells h this)) (vec_y (cells h this)) (vec_z (cells h this)) h"

text \<open>The mutating methods: each overwrites the cell of its receiver \<open>this\<close>.\<close>

definition Vector3_add :: "ref \<Rightarrow> ref \<Rightarrow> store \<Rightarrow> store" where
  "Vector3_add this v h = h\<lparr>cells := (cells h)(this := addV (cells h this) (cells h v))\<rparr>"

definition Vector3_sub :: "ref \<Rightarrow> ref \<Rightarrow> store \<Rightarrow> store" where
  "Vector3_sub this v h = h\<lparr>cells := (cells h)(this := subV (cells h this) (cells h v))\<rparr>"

definition Vector3_copy :: "ref \<Rightarrow> ref \<Rightarrow> store \<Rightarrow> store" where
  "Vector3_copy this v h = h\<lparr>cells := (cells h)(this := cells h v)\<rparr>"

definition Vector3_multiplyScalar :: "ref \<Rightarrow> real \<Rightarrow> store \<Rightarrow> store" where
  "Vector3_multiplyScalar this s h =
     h\<lparr>cells := (cells h)(this := multiplyScalar (cells h this) s)\<rparr>"

definition Vector3_normalize :: "ref \<Rightarrow> store \<Rightarrow> store" where
  "Vector3_normalize this h = h\<lparr>cells := (cells h)(this := normalizeV (cells h this))\<rparr>"

definition Vector3_clampLength :: "ref \<Rightarrow> real \<Rightarrow> real \<Rightarrow> store \<Rightarrow> store" where
  "Vector3_clampLength this mn mx h =
     h\<lparr>cells := (cells h)(this := clampLength (cells h this) mn mx)\<rparr>"

definition Vector3_setScalar :: "ref \<Rightarrow> real \<Rightarrow> store \<Rightarrow> store" where
  "Vector3_setScalar this s h = h\<lparr>cells := (cells h)(this := setScalar s)\<rparr>"

subsection \<open>The classes\<close>

record Settings =
  targetVelocity :: ref
  pursuerPosition :: ref
  pursuerVelocity :: ref
  maxSpeed :: real
  maxSteerForce :: real
  visionDistance :: real
  visionAngle :: real

record Spaceship =
  position :: ref
  velocity :: ref

record Pursuer = Spaceship +
  acceleration :: ref
  direction :: ref
  maxSpeed :: real
  maxSteerForce :: real
  visionDistance :: real
  visionAngle :: real

text \<open>\<^verbatim>\<open>Spaceship.constructor\<close>: the two vectors are stored by reference.\<close>

definition Spaceship_new :: "ref \<Rightarrow> ref \<Rightarrow> Spaceship" where
  "Spaceship_new p v = \<lparr>position = p, velocity = v\<rparr>"

text \<open>\<^verbatim>\<open>Spaceship.update\<close>: \<^verbatim>\<open>this.position.add(this.velocity.clone().multiplyScalar(dt))\<close>.\<close>

definition Spaceship_update :: "real \<Rightarrow> Spaceship \<Rightarrow> store \<Rightarrow> store" where
  "Spaceship_update dt this h =
     (let (tmp, h1) = Vector3_clone (velocity this) h;
          h2 = Vector3_multiplyScalar tmp dt h1
      in Vector3_add (position this) tmp h2)"

text \<open>
  \<^verbatim>\<open>Pursuer.constructor\<close>: \<^verbatim>\<open>super(position, velocity)\<close>, then the field initialisers
  of \<^verbatim>\<open>acceleration\<close> and \<^verbatim>\<open>direction\<close>, then the four parameters, the angle converted
  from degrees to radians.
\<close>

definition Pursuer_new ::
  "ref \<Rightarrow> ref \<Rightarrow> real \<Rightarrow> real \<Rightarrow> real \<Rightarrow> real \<Rightarrow> store \<Rightarrow> Pursuer \<times> store" where
  "Pursuer_new p v ms msf vd va h =
     (let (acc, h1) = Vector3_new 0 0 0 h;
          (dir, h2) = Vector3_new 0 0 0 h1
      in (\<lparr>position = p, velocity = v, acceleration = acc, direction = dir,
           maxSpeed = ms, maxSteerForce = msf, visionDistance = vd,
           visionAngle = va * (pi / 180)\<rparr>, h2))"

text \<open>\<^verbatim>\<open>Pursuer.update\<close>, statement by statement.\<close>

definition Pursuer_update :: "real \<Rightarrow> Pursuer \<Rightarrow> store \<Rightarrow> store" where
  "Pursuer_update dt this h =
     (let h1 = Vector3_multiplyScalar (acceleration this) dt h;
          h2 = Vector3_add (velocity this) (acceleration this) h1;
          h3 = Vector3_clampLength (velocity this) 0 (maxSpeed this) h2;
          (tmp, h4) = Vector3_clone (velocity this) h3;
          h5 = Vector3_multiplyScalar tmp dt h4;
          h6 = Vector3_add (position this) tmp h5;
          h7 = Vector3_setScalar (acceleration this) 0 h6;
          h8 = Vector3_copy (direction this) (velocity this) h7
      in Vector3_normalize (direction this) h8)"

text \<open>\<^verbatim>\<open>Pursuer.pursueTarget\<close>, statement by statement.\<close>

definition Pursuer_pursueTarget :: "Pursuer \<Rightarrow> Spaceship \<Rightarrow> store \<Rightarrow> store" where
  "Pursuer_pursueTarget this target h =
     (let (offsetToTarget, h1) = Vector3_clone (position target) h;
          h2 = Vector3_sub offsetToTarget (position this) h1;
          (force, h3) = Vector3_clone offsetToTarget h2;
          h4 = Vector3_normalize force h3;
          h5 = Vector3_multiplyScalar force (maxSpeed this) h4;
          h6 = Vector3_sub force (velocity this) h5;
          h7 = Vector3_clampLength force 0 (maxSteerForce this) h6
      in Vector3_add (acceleration this) force h7)"

text \<open>
  \<^verbatim>\<open>Pursuer.didCatchTarget\<close>. The locals of lines 63 to 91 are definitions of their
  own: the distance, the denominator as first computed (\<open>length_product\<close>) and with its
  fallback, the dot product, the clamped cosine \<open>theta\<close>, and the angle.
\<close>

definition catch_distance :: "vec3 \<Rightarrow> vec3 \<Rightarrow> real" where
  "catch_distance p t =
     (let dx = vec_x p - vec_x t;
          dy = vec_y p - vec_y t;
          dz = vec_z p - vec_z t
      in sqrt (dx * dx + dy * dy + dz * dz))"

definition length_product :: "vec3 \<Rightarrow> vec3 \<Rightarrow> real" where
  "length_product d t =
     (let directionLengthSq = vec_x d * vec_x d + vec_y d * vec_y d + vec_z d * vec_z d;
          targetLengthSq = vec_x t * vec_x t + vec_y t * vec_y t + vec_z t * vec_z t
      in sqrt (directionLengthSq * targetLengthSq))"

definition catch_denominator :: "vec3 \<Rightarrow> vec3 \<Rightarrow> real" where
  "catch_denominator d t =
     (let denominator = length_product d t
      in if denominator = 0 then pi / 2 else denominator)"

definition catch_dot :: "vec3 \<Rightarrow> vec3 \<Rightarrow> real" where
  "catch_dot d t = vec_x d * vec_x t + vec_y d * vec_y t + vec_z d * vec_z t"

definition catch_theta :: "vec3 \<Rightarrow> vec3 \<Rightarrow> real" where
  "catch_theta d t =
     (let theta = catch_dot d t / catch_denominator d t
      in if theta < - 1 then - 1 else if theta > 1 then 1 else theta)"

definition catch_angle :: "vec3 \<Rightarrow> vec3 \<Rightarrow> real" where
  "catch_angle d t = arccos (catch_theta d t)"

definition Pursuer_didCatchTarget :: "Pursuer \<Rightarrow> Spaceship \<Rightarrow> store \<Rightarrow> bool" where
  "Pursuer_didCatchTarget this target h =
     (if catch_distance (cells h (position this)) (cells h (position target))
           \<le> visionDistance this
      then (if catch_angle (cells h (direction this)) (cells h (position target))
                 \<le> visionAngle this / 2
            then True else False)
      else False)"

subsection \<open>The two pursuer methods in double precision\<close>

text \<open>
  JavaScript numbers are IEEE-754 binary64 values. \<open>binary64\<close> rounds a real number to
  the nearest number with a significand of 53 bits, a tie going to the even significand
  (\<open>ties_to_even\<close> rounds to an integer in that way). The exponent is not bounded, so
  the result is the one of the machine whenever the machine neither overflows nor
  produces a subnormal number. \<open>unit_roundoff\<close> bounds the relative error of one
  rounding.
\<close>

definition ties_to_even :: "real \<Rightarrow> int" where
  "ties_to_even y =
     (let n = \<lfloor>y\<rfloor>; f = y - of_int n
      in if f < 1 / 2 then n else if 1 / 2 < f then n + 1 else if even n then n else n + 1)"

definition binary64 :: "real \<Rightarrow> real" where
  "binary64 x =
     (if x = 0 then 0
      else (let e = \<lfloor>log 2 \<bar>x\<bar>\<rfloor> - 52
            in of_int (ties_to_even (x / 2 powr of_int e)) * 2 powr of_int e))"

definition unit_roundoff :: real where
  "unit_roundoff = 1 / 2 ^ 53"

text \<open>
  Modelled from the spec: the same vector primitives of the external library
  \<^verbatim>\<open>THREE.Vector3\<close> as above, by the same formulas, with one rounding \<open>rnd\<close> after every
  arithmetic operation (\<^verbatim>\<open>*\<close>, \<^verbatim>\<open>+\<close>, \<^verbatim>\<open>-\<close>, \<^verbatim>\<open>1 / s\<close>, \<^verbatim>\<open>Math.sqrt\<close>), evaluated left
  to right as JavaScript does; \<^verbatim>\<open>Math.max\<close> and \<^verbatim>\<open>Math.min\<close> are exact. With the
  identity for \<open>rnd\<close> these are the exact definitions, with \<open>binary64\<close> they are the
  library's computation on doubles.
\<close>

definition addV_r :: "(real \<Rightarrow> real) \<Rightarrow> vec3 \<Rightarrow> vec3 \<Rightarrow> vec3" where
  "addV_r rnd a b =
     Vector3 (rnd (vec_x a + vec_x b)) (rnd (vec_y a + vec_y b)) (rnd (vec_z a + vec_z b))"

definition subV_r :: "(real \<Rightarrow> real) \<Rightarrow> vec3 \<Rightarrow> vec3 \<Rightarrow> vec3" where
  "subV_r rnd a b =
     Vector3 (rnd (vec_x a - vec_x b)) (rnd (vec_y a - vec_y b)) (rnd (vec_z a - vec_z b))"

definition multiplyScalar_r :: "(real \<Rightarrow> real) \<Rightarrow> vec3 \<Rightarrow> real \<Rightarrow> vec3" where
  "multiplyScalar_r rnd v s = Vector3 (rnd (vec_x v * s)) (rnd (vec_y v * s)) (rnd (vec_z v * s))"

definition divideScalar_r :: "(real \<Rightarrow> real) \<Rightarrow> vec3 \<Rightarrow> real \<Rightarrow> vec3" where
  "divideScalar_r rnd v s = multiplyScalar_r rnd v (rnd (1 / s))"

definition lengthV_r :: "(real \<Rightarrow> real) \<Rightarrow> vec3 \<Rightarrow> real" where
  "lengthV_r rnd v =
     rnd (sqrt (rnd (rnd (rnd (vec_x v * vec_x v) + rnd (vec_y v * vec_y v))
                      + rnd (vec_z v * vec_z v))))"

definition length_or_1_r :: "(real \<Rightarrow> real) \<Rightarrow> vec3 \<Rightarrow> real" where
  "length_or_1_r rnd v = (if lengthV_r rnd v = 0 then 1 else lengthV_r rnd v)"

definition normalizeV_r :: "(real \<Rightarrow> real) \<Rightarrow> vec3 \<Rightarrow> vec3" where
  "normalizeV_r rnd v = divideScalar_r rnd v (length_or_1_r rnd v)"

definition clampLength_r :: "(real \<Rightarrow> real) \<Rightarrow> vec3 \<Rightarrow> real \<Rightarrow> real \<Rightarrow> vec3" where
  "clampLength_r rnd v mn mx =
     multiplyScalar_r rnd (divideScalar_r rnd v (length_or_1_r rnd v))
       (max mn (min mx (lengthV_r rnd v)))"

text \<open>The mutating methods with rounding. \<^verbatim>\<open>clone\<close>, \<^verbatim>\<open>copy\<close> and \<^verbatim>\<open>setScalar\<close> do no
  arithmetic.\<close>

definition Vector3_add_r :: "(real \<Rightarrow> real) \<Rightarrow> ref \<Rightarrow> ref \<Rightarrow> store \<Rightarrow> store" where
  "Vector3_add_r rnd this v h =
     h\<lparr>cells := (cells h)(this := addV_r rnd (cells h this) (cells h v))\<rparr>"

definition Vector3_sub_r :: "(real \<Rightarrow> real) \<Rightarrow> ref \<Rightarrow> ref \<Rightarrow> store \<Rightarrow> store" where
  "Vector3_sub_r rnd this v h =
     h\<lparr>cells := (cells h)(this := subV_r rnd (cells h this) (cells h v))\<rparr>"

definition Vector3_multiplyScalar_r :: "(real \<Rightarrow> real) \<Rightarrow> ref \<Rightarrow> real \<Rightarrow> store \<Rightarrow> store" where
  "Vector3_multiplyScalar_r rnd this s h =
     h\<lparr>cells := (cells h)(this := multiplyScalar_r rnd (cells h this) s)\<rparr>"

definition Vector3_normalize_r :: "(real \<Rightarrow> real) \<Rightarrow> ref \<Rightarrow> store \<Rightarrow> store" where
  "Vector3_normalize_r rnd this h =
     h\<lparr>cells := (cells h)(this := normalizeV_r rnd (cells h this))\<rparr>"

definition Vector3_clampLength_r ::
  "(real \<Rightarrow> real) \<Rightarrow> ref \<Rightarrow> real \<Rightarrow> real \<Rightarrow> store \<Rightarrow> store" where
  "Vector3_clampLength_r rnd this mn mx h =
     h\<lparr>cells := (cells h)(this := clampLength_r rnd (cells h this) mn mx)\<rparr>"

text \<open>\<^verbatim>\<open>Pursuer.update\<close> and \<^verbatim>\<open>Pursuer.pursueTarget\<close>, statement by statement as above,
  every vector operation rounded.\<close>

definition Pursuer_update_r :: "(real \<Rightarrow> real) \<Rightarrow> real \<Rightarrow> Pursuer \<Rightarrow> store \<Rightarrow> store" where
  "Pursuer_update_r rnd dt this h =
     (let h1 = Vector3_multiplyScalar_r rnd (acceleration this) dt h;
          h2 = Vector3_add_r rnd (velocity this) (acceleration this) h1;
          h3 = Vector3_clampLength_r rnd (velocity this) 0 (maxSpeed this) h2;
          (tmp, h4) = Vector3_clone (velocity this) h3;
          h5 = Vector3_multiplyScalar_r rnd tmp dt h4;
          h6 = Vector3_add_r rnd (position this) tmp h5;
          h7 = Vector3_setScalar (acceleration this) 0 h6;
          h8 = Vector3_copy (direction this) (velocity this) h7
      in Vector3_normalize_r rnd (direction this) h8)"

definition Pursuer_pursueTarget_r ::
  "(real \<Rightarrow> real) \<Rightarrow> Pursuer \<Rightarrow> Spaceship \<Rightarrow> store \<Rightarrow> store" where
  "Pursuer_pursueTarget_r rnd this target h =
     (let (offsetToTarget, h1) = Vector3_clone (position target) h;
          h2 = Vector3_sub_r rnd offsetToTarget (position this) h1;
          (force, h3) = Vector3_clone offsetToTarget h2;
          h4 = Vector3_normalize_r rnd force h3;
          h5 = Vector3_multiplyScalar_r rnd force (maxSpeed this) h4;
          h6 = Vector3_sub_r rnd force (velocity this) h5;
          h7 = Vector3_clampLength_r rnd force 0 (maxSteerForce this) h6
      in Vector3_add_r rnd (acceleration this) force h7)"

subsection \<open>Settings and the simulation\<close>

text \<open>\<^verbatim>\<open>Settings\<close>: the field initialisers.\<close>

definition Settings_new :: "store \<Rightarrow> Settings \<times> store" where
  "Settings_new h =
     (let (tv, h1) = Vector3_new 10 0 0 h;
          (pp, h2) = Vector3_new (- 10) (- 5) 5 h1;
          (pv, h3) = Vector3_new (- 10) 8 4 h2
      in (\<lparr>targetVelocity = tv, pursuerPosition = pp, pursuerVelocity = pv,
           maxSpeed = 20, maxSteerForce = 5, visionDistance = 5, visionAngle = 45\<rparr>, h3))"

record Simulation =
  target :: Spaceship
  pursuer :: Pursuer
  time :: real
  finished :: bool

text \<open>\<^verbatim>\<open>Simulation.constructor\<close>: arguments are evaluated left to right.\<close>

definition Simulation_new :: "Settings \<Rightarrow> store \<Rightarrow> Simulation \<times> store" where
  "Simulation_new settings h =
     (let (tp, h1) = Vector3_new 0 0 0 h;
          (tv, h2) = Vector3_clone (targetVelocity settings) h1;
          (pp, h3) = Vector3_clone (pursuerPosition settings) h2;
          (pv, h4) = Vector3_clone (pursuerVelocity settings) h3;
          (p, h5) = Pursuer_new pp pv (Settings.maxSpeed settings)
                      (Settings.maxSteerForce settings) (Settings.visionDistance settings)
                      (Settings.visionAngle settings) h4
      in (\<lparr>target = Spaceship_new tp tv, pursuer = p, time = 0, finished = False\<rparr>, h5))"

text \<open>\<^verbatim>\<open>Simulation.update\<close>.\<close>

definition Simulation_update :: "real \<Rightarrow> Simulation \<times> store \<Rightarrow> Simulation \<times> store" where
  "Simulation_update dt = (\<lambda>(this, h).
     if finished this then (this, h)
     else
       (let this1 = this\<lparr>time := time this + dt\<rparr>;
            h1 = Pursuer_pursueTarget (pursuer this1) (target this1) h;
            h2 = Spaceship_update dt (target this1) h1;
            h3 = Pursuer_update dt (pursuer this1) h2
        in (this1\<lparr>finished := Pursuer_didCatchTarget (pursuer this1) (target this1) h3\<rparr>,
            h3)))"

text \<open>A finite sequence of \<^verbatim>\<open>update\<close> calls, one per frame.\<close>

fun run :: "real list \<Rightarrow> Simulation \<times> store \<Rightarrow> Simulation \<times> store" where
  "run [] s = s"
| "run (dt # dts) s = run dts (Simulation_update dt s)"

subsection \<open>Object graphs and the values they hold\<close>

text \<open>
  The six vector objects of a simulation. The constructor allocates them one by one, so
  they are pairwise distinct and allocated; every method keeps the references as they are.
\<close>

definition sim_refs :: "Simulation \<Rightarrow> ref list" where
  "sim_refs sim =
     [position (target sim), velocity (target sim),
      position (pursuer sim), velocity (pursuer sim),
      acceleration (pursuer sim), direction (pursuer sim)]"

definition wf_sim :: "Simulation \<Rightarrow> store \<Rightarrow> bool" where
  "wf_sim sim h \<longleftrightarrow> distinct (sim_refs sim) \<and> list_all (\<lambda>r. r < fresh h) (sim_refs sim)"

definition wf_pursuer :: "Pursuer \<Rightarrow> store \<Rightarrow> bool" where
  "wf_pursuer this h \<longleftrightarrow>
     distinct [position this, velocity this, acceleration this, direction this] \<and>
     list_all (\<lambda>r. r < fresh h) [position this, velocity this, acceleration this, direction this]"

definition wf_settings :: "Settings \<Rightarrow> store \<Rightarrow> bool" where
  "wf_settings settings h \<longleftrightarrow>
     list_all (\<lambda>r. r < fresh h)
       [targetVelocity settings, pursuerPosition settings, pursuerVelocity settings]"

text \<open>What an observer reads off a simulation: the values of all its fields.\<close>

record snapshot =
  target_position :: vec3
  target_velocity :: vec3
  pursuer_position :: vec3
  pursuer_velocity :: vec3
  pursuer_acceleration :: vec3
  pursuer_direction :: vec3
  max_speed :: real
  max_steer_force :: real
  vision_distance :: real
  vision_angle :: real
  elapsed :: real
  is_finished :: bool

definition snapshot :: "Simulation \<times> store \<Rightarrow> snapshot" where
  "snapshot = (\<lambda>(sim, h).
     \<lparr>target_position = cells h (position (target sim)),
      target_velocity = cells h (velocity (target sim)),
      pursuer_position = cells h (position (pursuer sim)),
      pursuer_velocity = cells h (velocity (pursuer sim)),
      pursuer_acceleration = cells h (acceleration (pursuer sim)),
      pursuer_direction = cells h (direction (pursuer sim)),
      max_speed = maxSpeed (pursuer sim),
      max_steer_force = maxSteerForce (pursuer sim),
      vision_distance = visionDistance (pursuer sim),
      vision_angle = visionAngle (pursuer sim),
      elapsed = time sim,
      is_finished = finished sim\<rparr>)"

text \<open>The values of a \<^verbatim>\<open>Settings\<close> object.\<close>

record settings_values =
  sv_targetVelocity :: vec3
  sv_pursuerPosition :: vec3
  sv_pursuerVelocity :: vec3
  sv_maxSpeed :: real
  sv_maxSteerForce :: real
  sv_visionDistance :: real
  sv_visionAngle :: real

definition settings_values :: "Settings \<Rightarrow> store \<Rightarrow> settings_values" where
  "settings_values settings h =
     \<lparr>sv_targetVelocity = cells h (targetVelocity settings),
      sv_pursuerPosition = cells h (pursuerPosition settings),
      sv_pursuerVelocity = cells h (pursuerVelocity settings),
      sv_maxSpeed = Settings.maxSpeed settings,
      sv_maxSteerForce = Settings.maxSteerForce settings,
      sv_visionDistance = Settings.visionDistance settings,
      sv_visionAngle = Settings.visionAngle settings\<rparr>"

subsection \<open>The tick as the specification words it\<close>

text \<open>
  The specification describes one tick on values: the steering law \<open>pursue\<close>, the
  integration of the two bodies, and the detection predicate. These definitions follow
  its sections 4.1 to 4.3 and are what the store-level methods are compared with.
\<close>

text \<open>\<open>desired = normalize(target.position - position) * maxSpeed\<close>;
  \<open>steer = desired - velocity\<close>, magnitude-clamped to \<open>[0, maxSteerForce]\<close>.\<close>

definition steer :: "vec3 \<Rightarrow> vec3 \<Rightarrow> vec3 \<Rightarrow> real \<Rightarrow> real \<Rightarrow> vec3" where
  "steer tp p v ms msf =
     clampLength (subV (multiplyScalar (normalizeV (subV tp p)) ms) v) 0 msf"

text \<open>The distance and angle test, with the angle taken as the code computes it.\<close>

definition detected :: "vec3 \<Rightarrow> vec3 \<Rightarrow> vec3 \<Rightarrow> real \<Rightarrow> real \<Rightarrow> bool" where
  "detected p d tp vd va \<longleftrightarrow> catch_distance p tp \<le> vd \<and> catch_angle d tp \<le> va / 2"

text \<open>
  No-op if finished. Else: \<open>time += dt\<close>; \<open>pursuer.pursue(target)\<close>;
  \<open>target.update(dt)\<close>; \<open>pursuer.update(dt)\<close>;
  \<open>finished = pursuer.isTargetDetected(target)\<close>.
\<close>

definition tick :: "real \<Rightarrow> snapshot \<Rightarrow> snapshot" where
  "tick dt s =
     (if is_finished s then s
      else
        (let t' = elapsed s + dt;
             a1 = addV (pursuer_acceleration s)
                    (steer (target_position s) (pursuer_position s) (pursuer_velocity s)
                       (max_speed s) (max_steer_force s));
             tp' = addV (target_position s) (multiplyScalar (target_velocity s) dt);
             v' = clampLength (addV (pursuer_velocity s) (multiplyScalar a1 dt)) 0 (max_speed s);
             p' = addV (pursuer_position s) (multiplyScalar v' dt);
             d' = normalizeV v'
         in s\<lparr>elapsed := t', target_position := tp', pursuer_velocity := v',
              pursuer_position := p', pursuer_acceleration := Vector3 0 0 0,
              pursuer_direction := d',
              is_finished := detected p' d' tp' (vision_distance s) (vision_angle s)\<rparr>))"

text \<open>A simulation freshly built from settings values: the target at the world origin,
  zero acceleration and direction, the angle in radians, time zero, not finished.\<close>

definition initial :: "settings_values \<Rightarrow> snapshot" where
  "initial sv =
     \<lparr>target_position = Vector3 0 0 0,
      target_velocity = sv_targetVelocity sv,
      pursuer_position = sv_pursuerPosition sv,
      pursuer_velocity = sv_pursuerVelocity sv,
      pursuer_acceleration = Vector3 0 0 0,
      pursuer_direction = Vector3 0 0 0,
      max_speed = sv_maxSpeed sv,
      max_steer_force = sv_maxSteerForce sv,
      vision_distance = sv_visionDistance sv,
      vision_angle = sv_visionAngle sv * (pi / 180),
      elapsed = 0,
      is_finished = False\<rparr>"

fun ticks :: "real list \<Rightarrow> snapshot \<Rightarrow> snapshot" where
  "ticks [] s = s"
| "ticks (dt # dts) s = ticks dts (tick dt s)"

text \<open>The angle of the detection test as the specification writes it: the arc cosine of
  the clamped quotient of the dot product by the product of the two lengths.\<close>

definition dotV :: "vec3 \<Rightarrow> vec3 \<Rightarrow> real" where
  "dotV a b = vec_x a * vec_x b + vec_y a * vec_y b + vec_z a * vec_z b"

definition spec_angle :: "vec3 \<Rightarrow> vec3 \<Rightarrow> real" where
  "spec_angle d t = arccos (max (- 1) (min 1 (dotV d t / (lengthV d * lengthV t))))"

text \<open>The negation of a vector, for the braking force of a pursuer that sits on its target.\<close>

definition negV :: "vec3 \<Rightarrow> vec3" where
  "negV v = Vector3 (- vec_x v) (- vec_y v) (- vec_z v)"

subsection \<open>Example states\<close>

text \<open>
  The example of the specification's section 8: a pursuer at the origin heading along
  \<open>(1, 0, 0)\<close>, the target at \<open>(3, 0, 0)\<close>, vision distance 5 and vision angle 90 degrees.
  The pursuer's velocity \<open>(20, 15, 0)\<close> has length 25 and exceeds its maximal speed 20.
  Cells 0 and 1 are the target's position and velocity, cells 2 to 5 the pursuer's
  position, velocity, acceleration and direction.
\<close>

definition ex_store :: store where
  "ex_store =
     \<lparr>cells = (\<lambda>_. Vector3 0 0 0)
        (0 := Vector3 3 0 0, 1 := Vector3 10 0 0, 2 := Vector3 0 0 0,
         3 := Vector3 20 15 0, 4 := Vector3 1 0 0, 5 := Vector3 1 0 0),
      fresh = 6\<rparr>"

definition ex_target :: Spaceship where
  "ex_target = \<lparr>position = 0, velocity = 1\<rparr>"

definition ex_pursuer :: Pursuer where
  "ex_pursuer =
     \<lparr>position = 2, velocity = 3, acceleration = 4, direction = 5,
      maxSpeed = 20, maxSteerForce = 5, visionDistance = 5, visionAngle = pi / 2\<rparr>"

definition ex_sim :: "bool \<Rightarrow> Simulation" where
  "ex_sim b = \<lparr>target = ex_target, pursuer = ex_pursuer, time = 0, finished = b\<rparr>"

text \<open>The same with the target out of range, at \<open>(30, 40, 0)\<close>.\<close>

definition ex_store_far :: store where
  "ex_store_far = ex_store\<lparr>cells := (cells ex_store)(0 := Vector3 30 40 0)\<rparr>"

text \<open>The same with the target at the pursuer's position.\<close>

definition ex_store_same :: store where
  "ex_store_same = ex_store\<lparr>cells := (cells ex_store)(0 := Vector3 0 0 0)\<rparr>"

text \<open>Six allocated cells that all hold the zero vector.\<close>

definition ex_store0 :: store where
  "ex_store0 = \<lparr>cells = (\<lambda>_. Vector3 0 0 0), fresh = 6\<rparr>"

text \<open>A pursuer at rest in its acceleration, moving with velocity \<open>(0, 4, 0)\<close>: the state
  before \<^verbatim>\<open>pursueTarget\<close> in a tick.\<close>

definition ex_store_steer :: store where
  "ex_store_steer =
     ex_store\<lparr>cells := (cells ex_store)(3 := Vector3 0 4 0, 4 := Vector3 0 0 0)\<rparr>"

section \<open>Vector arithmetic\<close>

lemma lengthV_nonneg: "0 \<le> lengthV v"
  by (simp add: lengthV_def)

lemma lengthV_multiplyScalar: "lengthV (multiplyScalar v s) = \<bar>s\<bar> * lengthV v"
proof -
  have "vec_x v * s * (vec_x v * s) + vec_y v * s * (vec_y v * s) + vec_z v * s * (vec_z v * s)
      = s\<^sup>2 * (vec_x v * vec_x v + vec_y v * vec_y v + vec_z v * vec_z v)"
    by (simp add: power2_eq_square algebra_simps)
  then show ?thesis
    by (simp add: lengthV_def multiplyScalar_def real_sqrt_mult)
qed

lemma lengthV_zero_iff: "lengthV v = 0 \<longleftrightarrow> v = Vector3 0 0 0"
proof (cases v)
  case (Vector3 a b c)
  have "a * a + b * b + c * c = 0 \<longleftrightarrow> a * a + b * b = 0 \<and> c * c = 0"
    by (intro add_nonneg_eq_0_iff) simp_all
  then have "a * a + b * b + c * c = 0 \<longleftrightarrow> a = 0 \<and> b = 0 \<and> c = 0"
    by simp
  then show ?thesis
    using Vector3 by (simp add: lengthV_def)
qed

lemma length_or_1_pos: "0 < length_or_1 v"
  using lengthV_nonneg [of v] by (auto simp: length_or_1_def less_le)

lemma normalizeV_zero: "normalizeV (Vector3 0 0 0) = Vector3 0 0 0"
  by (simp add: normalizeV_def divideScalar_def multiplyScalar_def)

lemma lengthV_normalizeV: "v \<noteq> Vector3 0 0 0 \<Longrightarrow> lengthV (normalizeV v) = 1"
  using lengthV_nonneg [of v]
  by (simp add: normalizeV_def divideScalar_def lengthV_multiplyScalar length_or_1_def
      lengthV_zero_iff)

lemma lengthV_clampLength:
  assumes "0 \<le> mx"
  shows "lengthV (clampLength v 0 mx) = min mx (lengthV v)"
proof (cases "lengthV v = 0")
  case True
  then show ?thesis using assms
    by (simp add: clampLength_def lengthV_multiplyScalar)
next
  case False
  then have pos: "0 < lengthV v" using lengthV_nonneg [of v] by simp
  then show ?thesis using assms
    by (simp add: clampLength_def divideScalar_def lengthV_multiplyScalar length_or_1_def)
qed

text \<open>
  The library's clamp is the one the specification words: for a bound that is not
  negative, a vector within the bound is left unchanged and a longer one is scaled down
  to the bound.
\<close>

lemma clampLength_scale_down:
  assumes "0 \<le> mx"
  shows "clampLength v 0 mx =
     (if lengthV v \<le> mx then v else multiplyScalar v (mx / lengthV v))"
proof (cases "lengthV v = 0")
  case True
  then have "v = Vector3 0 0 0" by (simp add: lengthV_zero_iff)
  with assms show ?thesis
    by (simp add: clampLength_def divideScalar_def multiplyScalar_def lengthV_def)
next
  case False
  with lengthV_nonneg [of v] have pos: "0 < lengthV v" by simp
  show ?thesis
  proof (cases "lengthV v \<le> mx")
    case True
    with pos have "max 0 (min mx (lengthV v)) = lengthV v" by simp
    with pos show ?thesis using True
      by (cases v) (simp add: clampLength_def divideScalar_def multiplyScalar_def length_or_1_def)
  next
    case False
    with assms have "max 0 (min mx (lengthV v)) = mx" by simp
    with pos show ?thesis using False
      by (cases v) (simp add: clampLength_def divideScalar_def multiplyScalar_def length_or_1_def)
  qed
qed

lemma lengthV_scale_le:
  assumes "0 \<le> K" and "\<bar>vec_x a\<bar> \<le> K * \<bar>vec_x b\<bar>" and "\<bar>vec_y a\<bar> \<le> K * \<bar>vec_y b\<bar>"
    and "\<bar>vec_z a\<bar> \<le> K * \<bar>vec_z b\<bar>"
  shows "lengthV a \<le> K * lengthV b"
proof -
  have sq: "p * p \<le> K\<^sup>2 * (q * q)" if "\<bar>p\<bar> \<le> K * \<bar>q\<bar>" for p q :: real
  proof -
    from that have "\<bar>p\<bar> * \<bar>p\<bar> \<le> (K * \<bar>q\<bar>) * (K * \<bar>q\<bar>)"
      by (intro mult_mono) (use assms(1) in simp_all)
    then show ?thesis by (simp add: power2_eq_square algebra_simps)
  qed
  have "vec_x a * vec_x a + vec_y a * vec_y a + vec_z a * vec_z a
      \<le> K\<^sup>2 * (vec_x b * vec_x b + vec_y b * vec_y b + vec_z b * vec_z b)"
    using sq [OF assms(2)] sq [OF assms(3)] sq [OF assms(4)] by (simp add: algebra_simps)
  then have "lengthV a \<le> sqrt (K\<^sup>2 * (vec_x b * vec_x b + vec_y b * vec_y b + vec_z b * vec_z b))"
    unfolding lengthV_def by (rule real_sqrt_le_mono)
  also have "\<dots> = K * lengthV b"
    using assms(1) by (simp add: real_sqrt_mult lengthV_def)
  finally show ?thesis .
qed

lemma sqrt_9: "sqrt 9 = 3"
  using real_sqrt_abs [of 3] by simp

lemma sqrt_225: "sqrt 225 = 15"
  using real_sqrt_abs [of 15] by simp

lemma sqrt_625: "sqrt 625 = 25"
  using real_sqrt_abs [of 25] by simp

lemma sqrt_2500: "sqrt 2500 = 50"
  using real_sqrt_abs [of 50] by simp

section \<open>Rounding to double precision\<close>

text \<open>
  How \<open>binary64\<close> is computed on a given number: the number scaled by a power of two
  into the range of the 53-bit significands is rounded to the nearest integer, to the
  even one at a tie.
\<close>

lemma ties_to_even_error: "\<bar>of_int (ties_to_even y) - y\<bar> \<le> 1 / 2"
  unfolding ties_to_even_def Let_def by (auto; linarith)

lemma ties_to_even_eqI:
  assumes "\<bar>y - of_int n\<bar> < 1 / 2"
  shows "ties_to_even y = n"
proof -
  have "\<lfloor>y\<rfloor> = n \<or> \<lfloor>y\<rfloor> = n - 1" using assms by linarith
  then show ?thesis
  proof
    assume "\<lfloor>y\<rfloor> = n"
    with assms show ?thesis unfolding ties_to_even_def Let_def by (auto; linarith)
  next
    assume "\<lfloor>y\<rfloor> = n - 1"
    with assms show ?thesis unfolding ties_to_even_def Let_def by (auto; linarith)
  qed
qed

lemma ties_to_even_tie:
  assumes "\<bar>y - of_int n\<bar> = 1 / 2" and "even n"
  shows "ties_to_even y = n"
proof -
  from assms(1) have "y = of_int n + 1 / 2 \<or> y = of_int n - 1 / 2" by linarith
  then show ?thesis
  proof
    assume y: "y = of_int n + 1 / 2"
    then have "\<lfloor>y\<rfloor> = n" by linarith
    with y assms(2) show ?thesis by (simp add: ties_to_even_def)
  next
    assume y: "y = of_int n - 1 / 2"
    then have "\<lfloor>y\<rfloor> = n - 1" by linarith
    with y assms(2) show ?thesis by (simp add: ties_to_even_def)
  qed
qed

lemma binary64_zero: "binary64 0 = 0"
  by (simp add: binary64_def)

lemma binary64_eqI:
  assumes "2 powr of_int k \<le> \<bar>x\<bar>" and "\<bar>x\<bar> < 2 powr of_int (k + 1)"
    and "ties_to_even (x / 2 powr of_int (k - 52)) = n"
  shows "binary64 x = of_int n * 2 powr of_int (k - 52)"
proof -
  have pos: "0 < \<bar>x\<bar>"
    using assms(1) powr_gt_zero [of 2 "of_int k"] by linarith
  then have "\<lfloor>log 2 \<bar>x\<bar>\<rfloor> = k"
    using assms(1,2) by (subst floor_log_eq_powr_iff) simp_all
  moreover have "x \<noteq> 0" using pos by auto
  ultimately show ?thesis
    using assms(3) by (simp add: binary64_def)
qed

lemma binary64_roundI:
  assumes "2 ^ 52 \<le> \<bar>x\<bar> * 2 ^ m" and "\<bar>x\<bar> * 2 ^ m < 2 ^ 53"
    and "ties_to_even (x * 2 ^ m) = n"
  shows "binary64 x = of_int n / 2 ^ m"
proof -
  have p: "2 powr of_int (52 - int m - 52) = 1 / (2::real) ^ m"
    by (simp add: powr_minus powr_realpow inverse_eq_divide)
  have k: "2 powr of_int (52 - int m) = (2::real) ^ 52 / 2 ^ m"
    by (simp add: powr_diff powr_realpow [symmetric])
  have k1: "2 powr of_int (52 - int m + 1) = (2::real) ^ 53 / 2 ^ m"
    by (simp add: powr_diff powr_add powr_realpow [symmetric])
  have "binary64 x = of_int n * 2 powr of_int (52 - int m - 52)"
  proof (rule binary64_eqI)
    show "2 powr of_int (52 - int m) \<le> \<bar>x\<bar>"
      using assms(1) unfolding k by (simp add: field_simps)
    show "\<bar>x\<bar> < 2 powr of_int (52 - int m + 1)"
      using assms(2) unfolding k1 by (simp add: field_simps)
    show "ties_to_even (x / 2 powr of_int (52 - int m - 52)) = n"
      using assms(3) unfolding p by simp
  qed
  then show ?thesis unfolding p by simp
qed

lemma binary64_scaledI:
  assumes "2 ^ 52 \<le> \<bar>x\<bar> * 2 ^ m" and "\<bar>x\<bar> * 2 ^ m < 2 ^ 53"
    and "\<bar>x * 2 ^ m - of_int n\<bar> < 1 / 2"
  shows "binary64 x = of_int n / 2 ^ m"
  using assms(1,2) ties_to_even_eqI [OF assms(3)] by (rule binary64_roundI)

lemma binary64_tieI:
  assumes "2 ^ 52 \<le> \<bar>x\<bar> * 2 ^ m" and "\<bar>x\<bar> * 2 ^ m < 2 ^ 53"
    and "\<bar>x * 2 ^ m - of_int n\<bar> = 1 / 2" and "even n"
  shows "binary64 x = of_int n / 2 ^ m"
  using assms(1,2) ties_to_even_tie [OF assms(3,4)] by (rule binary64_roundI)

lemma binary64_nearI:
  assumes "\<bar>x * 2 ^ m - of_int n\<bar> < 1 / 2" and "2 ^ 52 < \<bar>n\<bar>" and "\<bar>n\<bar> < 2 ^ 53"
  shows "binary64 x = of_int n / 2 ^ m"
proof (rule binary64_scaledI [OF _ _ assms(1)])
  have eq: "\<bar>x\<bar> * 2 ^ m = \<bar>x * 2 ^ m\<bar>"
    by (simp add: abs_mult)
  from assms(2) have "2 ^ 52 + 1 \<le> \<bar>n\<bar>" by linarith
  then have "(of_int (2 ^ 52 + 1) :: real) \<le> of_int \<bar>n\<bar>"
    by (simp only: of_int_le_iff)
  then have lo: "(2::real) ^ 52 + 1 \<le> \<bar>of_int n\<bar>" by simp
  from assms(3) have "\<bar>n\<bar> \<le> 2 ^ 53 - 1" by linarith
  then have "(of_int \<bar>n\<bar> :: real) \<le> of_int (2 ^ 53 - 1)"
    by (simp only: of_int_le_iff)
  then have hi: "\<bar>of_int n\<bar> \<le> (2::real) ^ 53 - 1" by simp
  from assms(1) lo show "2 ^ 52 \<le> \<bar>x\<bar> * 2 ^ m"
    unfolding eq by linarith
  from assms(1) hi show "\<bar>x\<bar> * 2 ^ m < 2 ^ 53"
    unfolding eq by linarith
qed

text \<open>
  One rounding changes a number by at most the fraction \<open>unit_roundoff\<close> of its
  magnitude.
\<close>

lemma binary64_error: "\<bar>binary64 x - x\<bar> \<le> \<bar>x\<bar> / 2 ^ 53"
proof (cases "x = 0")
  case True
  then show ?thesis by (simp add: binary64_def)
next
  case False
  define k where "k = \<lfloor>log 2 \<bar>x\<bar>\<rfloor>"
  define p :: real where "p = 2 powr of_int (k - 52)"
  have ppos: "0 < p" by (simp add: p_def)
  from False have "0 < \<bar>x\<bar>" by simp
  then have lo: "2 powr of_int k \<le> \<bar>x\<bar>"
    using floor_log_eq_powr_iff [of "\<bar>x\<bar>" 2 k] by (simp add: k_def)
  have "2 powr of_int k = p * 2 ^ 52"
    by (simp add: p_def powr_diff powr_realpow [symmetric])
  with lo have lo': "p * 2 ^ 52 \<le> \<bar>x\<bar>" by simp
  have "binary64 x - x = (of_int (ties_to_even (x / p)) - x / p) * p"
    using False ppos by (simp add: binary64_def k_def p_def Let_def field_simps)
  then have "\<bar>binary64 x - x\<bar> = \<bar>of_int (ties_to_even (x / p)) - x / p\<bar> * p"
    using ppos by (simp add: abs_mult)
  also have "\<dots> \<le> (1 / 2) * p"
    using ties_to_even_error [of "x / p"] ppos by (intro mult_right_mono) simp_all
  also have "\<dots> = (p * 2 ^ 52) / 2 ^ 53" by simp
  also have "\<dots> \<le> \<bar>x\<bar> / 2 ^ 53"
    using lo' by (intro divide_right_mono) simp_all
  finally show ?thesis .
qed

lemma unit_roundoff_bounds: "0 < unit_roundoff" "unit_roundoff < 1"
  by (simp_all add: unit_roundoff_def)

lemma binary64_relative: "\<bar>binary64 x - x\<bar> \<le> unit_roundoff * \<bar>x\<bar>"
  using binary64_error [of x] by (simp add: unit_roundoff_def)

lemma binary64_abs_le: "\<bar>binary64 x\<bar> \<le> (1 + unit_roundoff) * \<bar>x\<bar>"
proof -
  have "\<bar>binary64 x\<bar> \<le> \<bar>binary64 x - x\<bar> + \<bar>x\<bar>" by linarith
  also have "\<dots> \<le> unit_roundoff * \<bar>x\<bar> + \<bar>x\<bar>"
    using binary64_relative [of x] by linarith
  finally show ?thesis by (simp add: algebra_simps)
qed

lemma binary64_ge: "0 \<le> x \<Longrightarrow> (1 - unit_roundoff) * x \<le> binary64 x"
proof -
  assume "0 \<le> x"
  then have "\<bar>binary64 x - x\<bar> \<le> unit_roundoff * x"
    using binary64_relative [of x] by simp
  then have "x - unit_roundoff * x \<le> binary64 x" by linarith
  then show ?thesis by (simp add: algebra_simps)
qed

lemma binary64_nonneg: "0 \<le> x \<Longrightarrow> 0 \<le> binary64 x"
proof -
  assume "0 \<le> x"
  then have "0 \<le> (1 - unit_roundoff) * x"
    using unit_roundoff_bounds by simp
  also have "\<dots> \<le> binary64 x" using \<open>0 \<le> x\<close> by (rule binary64_ge)
  finally show ?thesis .
qed

lemma binary64_le: "0 \<le> x \<Longrightarrow> binary64 x \<le> (1 + unit_roundoff) * x"
  using binary64_abs_le [of x] by simp

lemma roundoff_ratio: "(1 + unit_roundoff) ^ 3 \<le> (1 + 1 / 2 ^ 50) * (1 - unit_roundoff) ^ 3"
proof -
  have a: "1 + unit_roundoff = 9007199254740993 / 9007199254740992"
    and b: "1 - unit_roundoff = 9007199254740991 / 9007199254740992"
    by (simp_all add: unit_roundoff_def)
  show ?thesis
    unfolding a b by (simp add: power_divide power3_eq_cube)
qed

text \<open>
  With the identity for the rounding, the rounded primitives and methods are the exact
  ones.
\<close>

lemmas vec_method_r_defs = Vector3_add_r_def Vector3_sub_r_def Vector3_multiplyScalar_r_def
  Vector3_normalize_r_def Vector3_clampLength_r_def

lemma vec_r_exact:
  "addV_r (\<lambda>x. x) = addV" "subV_r (\<lambda>x. x) = subV"
  "multiplyScalar_r (\<lambda>x. x) = multiplyScalar" "divideScalar_r (\<lambda>x. x) = divideScalar"
  "lengthV_r (\<lambda>x. x) = lengthV" "length_or_1_r (\<lambda>x. x) = length_or_1"
  "normalizeV_r (\<lambda>x. x) = normalizeV" "clampLength_r (\<lambda>x. x) = clampLength"
proof -
  show a: "addV_r (\<lambda>x. x) = addV" by (intro ext) (simp add: addV_r_def addV_def)
  show s: "subV_r (\<lambda>x. x) = subV" by (intro ext) (simp add: subV_r_def subV_def)
  show m: "multiplyScalar_r (\<lambda>x. x) = multiplyScalar"
    by (intro ext) (simp add: multiplyScalar_r_def multiplyScalar_def)
  show d: "divideScalar_r (\<lambda>x. x) = divideScalar"
    by (intro ext) (simp only: divideScalar_r_def divideScalar_def m)
  show l: "lengthV_r (\<lambda>x. x) = lengthV"
    by (intro ext) (simp only: lengthV_r_def lengthV_def)
  show o: "length_or_1_r (\<lambda>x. x) = length_or_1"
    by (intro ext) (simp only: length_or_1_r_def length_or_1_def l)
  show "normalizeV_r (\<lambda>x. x) = normalizeV"
    by (intro ext) (simp only: normalizeV_r_def normalizeV_def d o)
  show "clampLength_r (\<lambda>x. x) = clampLength"
    by (intro ext) (simp only: clampLength_r_def clampLength_def d o m l)
qed

text \<open>
  The rounded length differs from the exact one by at most three roundings, and the
  rounded clamp exceeds its bound by at most the factor \<open>1 + 2\<^sup>-\<^sup>5\<^sup>0\<close> in exact length:
  three roundings up of each component against three roundings down of the length. Its
  length as the program measures it, by the rounded \<open>length\<close>, stays within the factor
  \<open>1 + 2\<^sup>-\<^sup>4\<^sup>9\<close>.
\<close>

lemma lengthV_r_nonneg: "0 \<le> lengthV_r binary64 v"
  unfolding lengthV_r_def
  by (intro binary64_nonneg real_sqrt_ge_zero add_nonneg_nonneg) simp_all

lemma lengthV_r_zero: "lengthV_r binary64 (Vector3 0 0 0) = 0"
  by (simp add: lengthV_r_def binary64_zero)

lemma lengthV_r_lower: "(1 - unit_roundoff) ^ 3 * lengthV v \<le> lengthV_r binary64 v"
proof -
  define u :: real where "u = unit_roundoff"
  have u: "0 \<le> 1 - u" "1 - u \<le> 1"
    using unit_roundoff_bounds by (simp_all add: u_def)
  define a where "a = vec_x v * vec_x v"
  define b where "b = vec_y v * vec_y v"
  define c where "c = vec_z v * vec_z v"
  have nn: "0 \<le> a" "0 \<le> b" "0 \<le> c" by (simp_all add: a_def b_def c_def)
  have fa: "(1 - u) * a \<le> binary64 a" and fb: "(1 - u) * b \<le> binary64 b"
    and fc: "(1 - u) * c \<le> binary64 c"
    using nn unfolding u_def by (simp_all add: binary64_ge)
  have nfa: "0 \<le> binary64 a" "0 \<le> binary64 b" "0 \<le> binary64 c"
    using nn by (simp_all add: binary64_nonneg)
  define s1 where "s1 = binary64 (binary64 a + binary64 b)"
  have "(1 - u) * (binary64 a + binary64 b) \<le> s1"
    unfolding s1_def u_def using nfa by (intro binary64_ge) simp
  moreover have "(1 - u) * ((1 - u) * (a + b)) \<le> (1 - u) * (binary64 a + binary64 b)"
    using fa fb u by (intro mult_left_mono) (simp_all add: algebra_simps)
  ultimately have s1: "(1 - u)\<^sup>2 * (a + b) \<le> s1"
    by (simp add: power2_eq_square algebra_simps)
  have s1nn: "0 \<le> s1" unfolding s1_def using nfa by (intro binary64_nonneg) simp
  have c2: "(1 - u)\<^sup>2 * c \<le> binary64 c"
  proof -
    have "(1 - u) * ((1 - u) * c) \<le> 1 * ((1 - u) * c)"
      using u nn by (intro mult_right_mono) simp_all
    with fc show ?thesis by (simp add: power2_eq_square algebra_simps)
  qed
  define s2 where "s2 = binary64 (s1 + binary64 c)"
  have "(1 - u) * (s1 + binary64 c) \<le> s2"
    unfolding s2_def u_def using s1nn nfa by (intro binary64_ge) simp
  moreover have "(1 - u) * ((1 - u)\<^sup>2 * (a + b + c)) \<le> (1 - u) * (s1 + binary64 c)"
    using s1 c2 u by (intro mult_left_mono) (simp_all add: algebra_simps)
  ultimately have s2: "(1 - u) ^ 3 * (a + b + c) \<le> s2"
    by (simp add: power2_eq_square power3_eq_cube algebra_simps)
  have s2nn: "0 \<le> s2" unfolding s2_def using s1nn nfa by (intro binary64_nonneg) simp
  have "(1 - u) ^ 4 * (a + b + c) \<le> (1 - u) ^ 3 * (a + b + c)"
  proof -
    have "(1 - u) * ((1 - u) ^ 3 * (a + b + c)) \<le> 1 * ((1 - u) ^ 3 * (a + b + c))"
      using u nn by (intro mult_right_mono) simp_all
    then show ?thesis by (simp add: power4_eq_xxxx power3_eq_cube algebra_simps)
  qed
  with s2 have "((1 - u)\<^sup>2)\<^sup>2 * (a + b + c) \<le> s2"
    by (simp add: power4_eq_xxxx power2_eq_square algebra_simps)
  then have "sqrt (((1 - u)\<^sup>2)\<^sup>2 * (a + b + c)) \<le> sqrt s2"
    by (rule real_sqrt_le_mono)
  moreover have "sqrt (((1 - u)\<^sup>2)\<^sup>2) = (1 - u)\<^sup>2"
    by (simp only: real_sqrt_abs abs_power2)
  ultimately have rt: "(1 - u)\<^sup>2 * sqrt (a + b + c) \<le> sqrt s2"
    by (simp only: real_sqrt_mult)
  have "(1 - u) * sqrt s2 \<le> binary64 (sqrt s2)"
    unfolding u_def using s2nn by (intro binary64_ge) simp
  moreover have "(1 - u) * ((1 - u)\<^sup>2 * sqrt (a + b + c)) \<le> (1 - u) * sqrt s2"
    using rt u by (intro mult_left_mono) simp_all
  ultimately have "(1 - u) ^ 3 * sqrt (a + b + c) \<le> binary64 (sqrt s2)"
    by (simp add: power2_eq_square power3_eq_cube algebra_simps)
  then show ?thesis
    by (simp add: lengthV_r_def lengthV_def s2_def s1_def a_def b_def c_def u_def)
qed

lemma lengthV_r_upper: "lengthV_r binary64 v \<le> (1 + unit_roundoff) ^ 3 * lengthV v"
proof -
  define u :: real where "u = unit_roundoff"
  have u: "0 \<le> 1 + u" "1 \<le> 1 + u"
    using unit_roundoff_bounds by (simp_all add: u_def)
  define a where "a = vec_x v * vec_x v"
  define b where "b = vec_y v * vec_y v"
  define c where "c = vec_z v * vec_z v"
  have nn: "0 \<le> a" "0 \<le> b" "0 \<le> c" by (simp_all add: a_def b_def c_def)
  have fa: "binary64 a \<le> (1 + u) * a" and fb: "binary64 b \<le> (1 + u) * b"
    and fc: "binary64 c \<le> (1 + u) * c"
    using nn unfolding u_def by (simp_all add: binary64_le)
  have nfa: "0 \<le> binary64 a" "0 \<le> binary64 b" "0 \<le> binary64 c"
    using nn by (simp_all add: binary64_nonneg)
  define s1 where "s1 = binary64 (binary64 a + binary64 b)"
  have "s1 \<le> (1 + u) * (binary64 a + binary64 b)"
    unfolding s1_def u_def using nfa by (intro binary64_le) simp
  moreover have "(1 + u) * (binary64 a + binary64 b) \<le> (1 + u) * ((1 + u) * (a + b))"
    using fa fb u by (intro mult_left_mono) (simp_all add: algebra_simps)
  ultimately have s1: "s1 \<le> (1 + u)\<^sup>2 * (a + b)"
    by (simp add: power2_eq_square algebra_simps)
  have s1nn: "0 \<le> s1" unfolding s1_def using nfa by (intro binary64_nonneg) simp
  have c2: "binary64 c \<le> (1 + u)\<^sup>2 * c"
  proof -
    have "1 * ((1 + u) * c) \<le> (1 + u) * ((1 + u) * c)"
      using u nn by (intro mult_right_mono) simp_all
    with fc show ?thesis by (simp add: power2_eq_square algebra_simps)
  qed
  define s2 where "s2 = binary64 (s1 + binary64 c)"
  have "s2 \<le> (1 + u) * (s1 + binary64 c)"
    unfolding s2_def u_def using s1nn nfa by (intro binary64_le) simp
  moreover have "(1 + u) * (s1 + binary64 c) \<le> (1 + u) * ((1 + u)\<^sup>2 * (a + b + c))"
    using s1 c2 u by (intro mult_left_mono) (simp_all add: algebra_simps)
  ultimately have s2: "s2 \<le> (1 + u) ^ 3 * (a + b + c)"
    by (simp add: power2_eq_square power3_eq_cube algebra_simps)
  have s2nn: "0 \<le> s2" unfolding s2_def using s1nn nfa by (intro binary64_nonneg) simp
  have "(1 + u) ^ 3 * (a + b + c) \<le> (1 + u) ^ 4 * (a + b + c)"
  proof -
    have "1 * ((1 + u) ^ 3 * (a + b + c)) \<le> (1 + u) * ((1 + u) ^ 3 * (a + b + c))"
      using u nn by (intro mult_right_mono) simp_all
    then show ?thesis by (simp add: power4_eq_xxxx power3_eq_cube algebra_simps)
  qed
  with s2 have "s2 \<le> ((1 + u)\<^sup>2)\<^sup>2 * (a + b + c)"
    by (simp add: power4_eq_xxxx power2_eq_square algebra_simps)
  then have "sqrt s2 \<le> sqrt (((1 + u)\<^sup>2)\<^sup>2 * (a + b + c))"
    by (rule real_sqrt_le_mono)
  moreover have "sqrt (((1 + u)\<^sup>2)\<^sup>2) = (1 + u)\<^sup>2"
    by (simp only: real_sqrt_abs abs_power2)
  ultimately have rt: "sqrt s2 \<le> (1 + u)\<^sup>2 * sqrt (a + b + c)"
    by (simp only: real_sqrt_mult)
  have "binary64 (sqrt s2) \<le> (1 + u) * sqrt s2"
    unfolding u_def using s2nn by (intro binary64_le) simp
  moreover have "(1 + u) * sqrt s2 \<le> (1 + u) * ((1 + u)\<^sup>2 * sqrt (a + b + c))"
    using rt u by (intro mult_left_mono) simp_all
  ultimately have "binary64 (sqrt s2) \<le> (1 + u) ^ 3 * sqrt (a + b + c)"
    by (simp add: power2_eq_square power3_eq_cube algebra_simps)
  then show ?thesis
    by (simp add: lengthV_r_def lengthV_def s2_def s1_def a_def b_def c_def u_def)
qed

lemma scaled_component:
  assumes "0 \<le> c"
  shows "\<bar>binary64 (binary64 (p * r) * c)\<bar> \<le> ((1 + unit_roundoff)\<^sup>2 * \<bar>r\<bar> * c) * \<bar>p\<bar>"
proof -
  define u where "u = unit_roundoff"
  have u: "0 < u" using unit_roundoff_bounds by (simp add: u_def)
  have "\<bar>binary64 (binary64 (p * r) * c)\<bar> \<le> (1 + u) * \<bar>binary64 (p * r) * c\<bar>"
    unfolding u_def by (rule binary64_abs_le)
  also have "\<dots> = ((1 + u) * c) * \<bar>binary64 (p * r)\<bar>"
    using assms by (simp add: abs_mult)
  also have "\<dots> \<le> ((1 + u) * c) * ((1 + u) * \<bar>p * r\<bar>)"
  proof (rule mult_left_mono)
    show "\<bar>binary64 (p * r)\<bar> \<le> (1 + u) * \<bar>p * r\<bar>"
      unfolding u_def by (rule binary64_abs_le)
    show "0 \<le> (1 + u) * c" using assms u by simp
  qed
  also have "\<dots> = ((1 + u)\<^sup>2 * \<bar>r\<bar> * c) * \<bar>p\<bar>"
    by (simp add: abs_mult power2_eq_square)
  finally show ?thesis unfolding u_def .
qed

lemma clampLength_r_scaled:
  assumes "0 \<le> mx"
  shows "lengthV (clampLength_r binary64 v 0 mx) \<le>
    ((1 + unit_roundoff)\<^sup>2 * \<bar>binary64 (1 / length_or_1_r binary64 v)\<bar>
       * max 0 (min mx (lengthV_r binary64 v))) * lengthV v"
proof -
  define c where "c = max 0 (min mx (lengthV_r binary64 v))"
  define r where "r = binary64 (1 / length_or_1_r binary64 v)"
  have c: "0 \<le> c" by (simp add: c_def)
  have K: "0 \<le> (1 + unit_roundoff)\<^sup>2 * \<bar>r\<bar> * c" using c by simp
  have res: "clampLength_r binary64 v 0 mx =
      Vector3 (binary64 (binary64 (vec_x v * r) * c)) (binary64 (binary64 (vec_y v * r) * c))
        (binary64 (binary64 (vec_z v * r) * c))"
    by (simp add: clampLength_r_def divideScalar_r_def multiplyScalar_r_def r_def c_def)
  show ?thesis
    unfolding res c_def [symmetric] r_def [symmetric]
    by (rule lengthV_scale_le [OF K]) (simp_all only: vec3.sel scaled_component [OF c])
qed

lemma clampLength_r_bound:
  assumes "0 \<le> mx"
  shows "lengthV (clampLength_r binary64 v 0 mx) \<le> mx * (1 + 1 / 2 ^ 50)"
proof -
  define u where "u = unit_roundoff"
  have u: "0 < u" "u < 1" using unit_roundoff_bounds by (simp_all add: u_def)
  define l where "l = lengthV_r binary64 v"
  define c where "c = max 0 (min mx l)"
  define r where "r = binary64 (1 / length_or_1_r binary64 v)"
  define R where "R = lengthV (clampLength_r binary64 v 0 mx)"
  define V where "V = lengthV v"
  have low: "(1 - u) ^ 3 * V \<le> l"
    unfolding l_def u_def V_def by (rule lengthV_r_lower)
  have c: "0 \<le> c" "c \<le> mx" using assms by (simp_all add: c_def)
  have Vnn: "0 \<le> V" and Rnn: "0 \<le> R" by (simp_all add: V_def R_def lengthV_nonneg)
  have len: "R \<le> ((1 + u)\<^sup>2 * \<bar>r\<bar> * c) * V"
    unfolding R_def u_def r_def c_def l_def V_def using assms by (rule clampLength_r_scaled)
  have lnn: "0 \<le> l" unfolding l_def by (rule lengthV_r_nonneg)
  have bound: "0 \<le> mx * (1 + 1 / 2 ^ 50)" using assms by simp
  show ?thesis
  proof (cases "V = 0")
    case True
    with len have "R \<le> 0" by simp
    with bound show ?thesis unfolding R_def by linarith
  next
    case False
    with Vnn have Vpos: "0 < V" by simp
    have lpos: "0 < l"
    proof -
      have "0 < (1 - u) ^ 3 * V" using u Vpos by simp
      with low show ?thesis by linarith
    qed
    then have "r = binary64 (1 / l)"
      by (simp add: r_def length_or_1_r_def l_def)
    then have "\<bar>r\<bar> \<le> (1 + u) * \<bar>1 / l\<bar>"
      unfolding u_def by (simp only: binary64_abs_le)
    with lpos have r: "\<bar>r\<bar> \<le> (1 + u) / l" by simp
    have "(1 + u)\<^sup>2 * \<bar>r\<bar> \<le> (1 + u)\<^sup>2 * ((1 + u) / l)"
      by (rule mult_left_mono [OF r]) simp
    then have "(1 + u)\<^sup>2 * \<bar>r\<bar> * c \<le> (1 + u)\<^sup>2 * ((1 + u) / l) * c"
      by (rule mult_right_mono) (rule c)
    then have "((1 + u)\<^sup>2 * \<bar>r\<bar> * c) * V \<le> ((1 + u)\<^sup>2 * ((1 + u) / l) * c) * V"
      by (rule mult_right_mono) (rule Vnn)
    with len have "R \<le> ((1 + u)\<^sup>2 * ((1 + u) / l) * c) * V" by linarith
    also have "\<dots> = ((1 + u) ^ 3 * c) * (V / l)"
      by (simp add: power2_eq_square power3_eq_cube)
    finally have R1: "R \<le> ((1 + u) ^ 3 * c) * (V / l)" .
    have q: "0 < (1 - u) ^ 3" using u by simp
    have "V / l \<le> 1 / (1 - u) ^ 3"
    proof -
      from low have "V * (1 - u) ^ 3 \<le> 1 * l" by (simp add: mult.commute)
      then show ?thesis using lpos q by (simp only: frac_le_eq) (simp add: field_simps)
    qed
    then have "((1 + u) ^ 3 * c) * (V / l) \<le> ((1 + u) ^ 3 * c) * (1 / (1 - u) ^ 3)"
      by (rule mult_left_mono) (use c u in simp)
    with R1 have R2: "R \<le> ((1 + u) ^ 3 * c) * (1 / (1 - u) ^ 3)" by linarith
    have "(1 + u) ^ 3 * c \<le> ((1 + 1 / 2 ^ 50) * (1 - u) ^ 3) * c"
      unfolding u_def by (rule mult_right_mono [OF roundoff_ratio]) (use c in \<open>simp add: u_def\<close>)
    then have "((1 + u) ^ 3 * c) * (1 / (1 - u) ^ 3)
        \<le> (((1 + 1 / 2 ^ 50) * (1 - u) ^ 3) * c) * (1 / (1 - u) ^ 3)"
      by (rule mult_right_mono) (use q in simp)
    also have "\<dots> = c * (1 + 1 / 2 ^ 50)"
      using q by simp
    finally have "R \<le> c * (1 + 1 / 2 ^ 50)" using R2 by linarith
    also have "\<dots> \<le> mx * (1 + 1 / 2 ^ 50)"
      by (rule mult_right_mono [OF c(2)]) simp
    finally show ?thesis unfolding R_def .
  qed
qed

lemma roundoff_measured: "(1 + unit_roundoff) ^ 3 * (1 + 1 / 2 ^ 50) \<le> 1 + 1 / 2 ^ 49"
proof -
  have a: "1 + unit_roundoff = 9007199254740993 / 9007199254740992"
    by (simp add: unit_roundoff_def)
  show ?thesis
    unfolding a by (simp add: power_divide power3_eq_cube)
qed

lemma clampLength_r_measured_bound:
  assumes "0 \<le> mx"
  shows "lengthV_r binary64 (clampLength_r binary64 v 0 mx) \<le> mx * (1 + 1 / 2 ^ 49)"
proof -
  define R where "R = lengthV (clampLength_r binary64 v 0 mx)"
  have R: "R \<le> mx * (1 + 1 / 2 ^ 50)"
    unfolding R_def using assms by (rule clampLength_r_bound)
  have pos: "0 \<le> (1 + unit_roundoff) ^ 3"
    using unit_roundoff_bounds by simp
  have "lengthV_r binary64 (clampLength_r binary64 v 0 mx) \<le> (1 + unit_roundoff) ^ 3 * R"
    unfolding R_def by (rule lengthV_r_upper)
  also have "\<dots> \<le> (1 + unit_roundoff) ^ 3 * (mx * (1 + 1 / 2 ^ 50))"
    by (rule mult_left_mono [OF R pos])
  also have "\<dots> = mx * ((1 + unit_roundoff) ^ 3 * (1 + 1 / 2 ^ 50))"
    by simp
  also have "\<dots> \<le> mx * (1 + 1 / 2 ^ 49)"
    by (rule mult_left_mono [OF roundoff_measured assms])
  finally show ?thesis .
qed

text \<open>
  Two clamps and one normalisation computed in double precision, rounding by rounding,
  and the lengths of the two clamped vectors as the rounded \<open>length\<close> measures them:
  20.000000000000004 and 5.000000000000001, above the bounds 20 and 5.
\<close>

lemma clampLength_r_overshoot:
  "clampLength_r binary64 (Vector3 21 15 0) 0 20 =
     Vector3 (1145228049282985 / 70368744177664) (3272080140808529 / 281474976710656) 0"
proof -
  define L :: real where "L = 7264017912594933 / 281474976710656"
  define R :: real where "R = 5584350106979889 / 144115188075855872"
  define WX :: real where "WX = 229045609856597 / 281474976710656"
  define WY :: real where "WY = 2617664112646823 / 4503599627370496"
  define X :: real where "X = 1145228049282985 / 70368744177664"
  define Y :: real where "Y = 3272080140808529 / 281474976710656"
  have b441: "binary64 441 = 441"
    using binary64_scaledI [of 441 44 7758154045587456] by simp
  have b225: "binary64 225 = 225"
    using binary64_scaledI [of 225 45 7916483719987200] by simp
  have b666: "binary64 666 = 666"
    using binary64_scaledI [of 666 43 5858197952790528] by simp
  have bs: "binary64 (sqrt 666) = 7264017912594933 / 281474976710656"
  proof -
    have lo: "(7264017912594933 - 1 / 2) / 2 ^ 48 < sqrt 666"
      by (rule real_less_rsqrt) (simp add: power2_eq_square)
    have hi: "sqrt 666 < (7264017912594933 + 1 / 2) / 2 ^ 48"
      by (rule real_less_lsqrt) (simp_all add: power2_eq_square)
    from lo hi have "\<bar>sqrt 666 * 2 ^ 48 - of_int 7264017912594933\<bar> < 1 / 2"
      unfolding abs_less_iff by (simp add: field_simps)
    then show ?thesis
      using binary64_nearI [of "sqrt 666" 48 7264017912594933] by simp
  qed
  have l: "lengthV_r binary64 (Vector3 21 15 0) = L"
    by (simp add: lengthV_r_def b441 b225 b666 bs binary64_zero L_def)
  have L: "L \<noteq> 0" "max 0 (min 20 L) = 20"
    by (simp_all add: L_def)
  have r: "binary64 (1 / L) = R"
    unfolding L_def R_def
    using binary64_scaledI [of "1 / (7264017912594933 / 281474976710656)" 57 "5584350106979889"] by simp
  have wx: "binary64 (21 * R) = WX"
    unfolding R_def WX_def
    using binary64_scaledI [of "21 * (5584350106979889 / 144115188075855872)" 53 "7329459515411104"] by simp
  have wy: "binary64 (15 * R) = WY"
    unfolding R_def WY_def
    using binary64_scaledI [of "15 * (5584350106979889 / 144115188075855872)" 53 "5235328225293646"] by simp
  have x: "binary64 (WX * 20) = X"
    unfolding WX_def X_def
    using binary64_scaledI [of "229045609856597 / 281474976710656 * 20" 48 "4580912197131940"] by simp
  have y: "binary64 (WY * 20) = Y"
    unfolding WY_def Y_def
    using binary64_tieI [of "2617664112646823 / 4503599627370496 * 20" 49 "6544160281617058"] by simp
  have "clampLength_r binary64 (Vector3 21 15 0) 0 20 = Vector3 X Y 0"
    by (simp add: clampLength_r_def divideScalar_r_def multiplyScalar_r_def length_or_1_r_def
        l L r wx wy x y binary64_zero)
  then show ?thesis by (simp only: X_def Y_def)
qed

lemma measured_length_overshoot:
  "lengthV_r binary64 (Vector3 (1145228049282985 / 70368744177664) (3272080140808529 / 281474976710656) 0) = 5629499534213121 / 281474976710656"
proof -
  define XX :: real where "XX = 2329775989665903 / 8796093022208"
  define YY :: real where "YY = 4754644876869191 / 35184372088832"
  define S :: real where "S = 3518437208883201 / 8796093022208"
  define M :: real where "M = 5629499534213121 / 281474976710656"
  have xx: "binary64 ((1145228049282985 / 70368744177664) * (1145228049282985 / 70368744177664)) = XX"
    unfolding XX_def
    using binary64_scaledI [of "(1145228049282985 / 70368744177664) * (1145228049282985 / 70368744177664)" 44 "4659551979331806"] by simp
  have yy: "binary64 ((3272080140808529 / 281474976710656) * (3272080140808529 / 281474976710656)) = YY"
    unfolding YY_def
    using binary64_scaledI [of "(3272080140808529 / 281474976710656) * (3272080140808529 / 281474976710656)" 45 "4754644876869191"] by simp
  have s: "binary64 (XX + YY) = S"
    unfolding XX_def YY_def S_def
    using binary64_tieI [of "2329775989665903 / 8796093022208 + 4754644876869191 / 35184372088832" 44 "7036874417766402"] by simp
  have s0: "binary64 (S + 0) = S"
    unfolding S_def
    using binary64_scaledI [of "3518437208883201 / 8796093022208" 44 "7036874417766402"] by simp
  have m: "binary64 (sqrt S) = M"
  proof -
    have lo: "(5629499534213121 - 1 / 2) / 2 ^ 48 < sqrt (3518437208883201 / 8796093022208)"
      by (rule real_less_rsqrt) (simp add: power2_eq_square)
    have hi: "sqrt (3518437208883201 / 8796093022208) < (5629499534213121 + 1 / 2) / 2 ^ 48"
      by (rule real_less_lsqrt) (simp_all add: power2_eq_square)
    from lo hi have "\<bar>sqrt (3518437208883201 / 8796093022208) * 2 ^ 48 - of_int 5629499534213121\<bar> < 1 / 2"
      unfolding abs_less_iff by (simp add: field_simps)
    then show ?thesis
      unfolding S_def M_def
      using binary64_nearI [of "sqrt (3518437208883201 / 8796093022208)" 48 5629499534213121] by simp
  qed
  have "lengthV_r binary64 (Vector3 (1145228049282985 / 70368744177664) (3272080140808529 / 281474976710656) 0) = M"
    unfolding lengthV_r_def vec3.sel by (simp only: xx yy s s0 m mult_zero_left binary64_zero)
  then show ?thesis by (simp only: M_def)
qed

lemma normalizeV_r_example: "normalizeV_r binary64 (Vector3 3 0 0) = Vector3 1 0 0"
proof -
  define R :: real where "R = 6004799503160661 / 18014398509481984"
  have b3: "binary64 3 = 3"
    using binary64_scaledI [of 3 51 6755399441055744] by simp
  have b9: "binary64 9 = 9"
    using binary64_scaledI [of 9 49 5066549580791808] by simp
  have l: "lengthV_r binary64 (Vector3 3 0 0) = 3"
    by (simp add: lengthV_r_def b3 b9 sqrt_9 binary64_zero)
  have r: "binary64 (1 / 3) = R"
    unfolding R_def
    using binary64_scaledI [of "1 / 3" 54 "6004799503160661"] by simp
  have w: "binary64 (3 * R) = 1"
    unfolding R_def
    using binary64_tieI [of "3 * (6004799503160661 / 18014398509481984)" 53 "9007199254740992"] by simp
  show ?thesis
    by (simp add: normalizeV_r_def divideScalar_r_def multiplyScalar_r_def length_or_1_r_def
        l r w binary64_zero)
qed

lemma clampLength_r_overshoot_steer:
  "clampLength_r binary64 (Vector3 20 (- 4) 0) 0 5 =
     Vector3 (2760089228530211 / 562949953421312) (- (8832285531296675 / 9007199254740992)) 0"
proof -
  define L :: real where "L = 2870492797671419 / 140737488355328"
  define R :: real where "R = 1766457106259335 / 36028797018963968"
  define WX :: real where "WX = 8832285531296675 / 9007199254740992"
  define WY :: real where "WY = 1766457106259335 / 9007199254740992"
  define X :: real where "X = 2760089228530211 / 562949953421312"
  define Y :: real where "Y = 8832285531296675 / 9007199254740992"
  have b400: "binary64 400 = 400"
    using binary64_scaledI [of 400 44 7036874417766400] by simp
  have b16: "binary64 16 = 16"
    using binary64_scaledI [of 16 48 4503599627370496] by simp
  have b416: "binary64 416 = 416"
    using binary64_scaledI [of 416 44 7318349394477056] by simp
  have bs: "binary64 (sqrt 416) = 2870492797671419 / 140737488355328"
  proof -
    have lo: "(5740985595342838 - 1 / 2) / 2 ^ 48 < sqrt 416"
      by (rule real_less_rsqrt) (simp add: power2_eq_square)
    have hi: "sqrt 416 < (5740985595342838 + 1 / 2) / 2 ^ 48"
      by (rule real_less_lsqrt) (simp_all add: power2_eq_square)
    from lo hi have "\<bar>sqrt 416 * 2 ^ 48 - of_int 5740985595342838\<bar> < 1 / 2"
      unfolding abs_less_iff by (simp add: field_simps)
    then show ?thesis
      using binary64_nearI [of "sqrt 416" 48 5740985595342838] by simp
  qed
  have l: "lengthV_r binary64 (Vector3 20 (- 4) 0) = L"
    by (simp add: lengthV_r_def b400 b16 b416 bs binary64_zero L_def)
  have L: "L \<noteq> 0" "max 0 (min 5 L) = 5"
    by (simp_all add: L_def)
  have r: "binary64 (1 / L) = R"
    unfolding L_def R_def
    using binary64_scaledI [of "1 / (2870492797671419 / 140737488355328)" 57 "7065828425037340"] by simp
  have wx: "binary64 (20 * R) = WX"
    unfolding R_def WX_def
    using binary64_scaledI [of "20 * (1766457106259335 / 36028797018963968)" 53 "8832285531296675"] by simp
  have wy: "binary64 (- (4 * R)) = - WY"
    unfolding R_def WY_def
    using binary64_scaledI [of "- (4 * (1766457106259335 / 36028797018963968))" 55 "- 7065828425037340"] by simp
  have x: "binary64 (WX * 5) = X"
    unfolding WX_def X_def
    using binary64_scaledI [of "8832285531296675 / 9007199254740992 * 5" 50 "5520178457060422"] by simp
  have y: "binary64 (- (WY * 5)) = - Y"
    unfolding WY_def Y_def
    using binary64_scaledI [of "- (1766457106259335 / 9007199254740992 * 5)" 53 "- 8832285531296675"] by simp
  have "clampLength_r binary64 (Vector3 20 (- 4) 0) 0 5 = Vector3 X (- Y) 0"
    by (simp add: clampLength_r_def divideScalar_r_def multiplyScalar_r_def length_or_1_r_def
        l L r wx wy x y binary64_zero)
  then show ?thesis by (simp only: X_def Y_def)
qed

lemma measured_length_overshoot_steer:
  "lengthV_r binary64 (Vector3 (2760089228530211 / 562949953421312) (- (8832285531296675 / 9007199254740992)) 0) = 5629499534213121 / 1125899906842624"
proof -
  define XX :: real where "XX = 6766225401698463 / 281474976710656"
  define YY :: real where "YY = 541298032135877 / 562949953421312"
  define S :: real where "S = 3518437208883201 / 140737488355328"
  define M :: real where "M = 5629499534213121 / 1125899906842624"
  have xx: "binary64 ((2760089228530211 / 562949953421312) * (2760089228530211 / 562949953421312)) = XX"
    unfolding XX_def
    using binary64_scaledI [of "(2760089228530211 / 562949953421312) * (2760089228530211 / 562949953421312)" 48 "6766225401698463"] by simp
  have yy: "binary64 ((- (8832285531296675 / 9007199254740992)) * (- (8832285531296675 / 9007199254740992))) = YY"
    unfolding YY_def
    using binary64_scaledI [of "(- (8832285531296675 / 9007199254740992)) * (- (8832285531296675 / 9007199254740992))" 53 "8660768514174032"] by simp
  have s: "binary64 (XX + YY) = S"
    unfolding XX_def YY_def S_def
    using binary64_tieI [of "6766225401698463 / 281474976710656 + 541298032135877 / 562949953421312" 48 "7036874417766402"] by simp
  have s0: "binary64 (S + 0) = S"
    unfolding S_def
    using binary64_scaledI [of "3518437208883201 / 140737488355328" 48 "7036874417766402"] by simp
  have m: "binary64 (sqrt S) = M"
  proof -
    have lo: "(5629499534213121 - 1 / 2) / 2 ^ 50 < sqrt (3518437208883201 / 140737488355328)"
      by (rule real_less_rsqrt) (simp add: power2_eq_square)
    have hi: "sqrt (3518437208883201 / 140737488355328) < (5629499534213121 + 1 / 2) / 2 ^ 50"
      by (rule real_less_lsqrt) (simp_all add: power2_eq_square)
    from lo hi have "\<bar>sqrt (3518437208883201 / 140737488355328) * 2 ^ 50 - of_int 5629499534213121\<bar> < 1 / 2"
      unfolding abs_less_iff by (simp add: field_simps)
    then show ?thesis
      unfolding S_def M_def
      using binary64_nearI [of "sqrt (3518437208883201 / 140737488355328)" 50 5629499534213121] by simp
  qed
  have "lengthV_r binary64 (Vector3 (2760089228530211 / 562949953421312) (- (8832285531296675 / 9007199254740992)) 0) = M"
    unfolding lengthV_r_def vec3.sel by (simp only: xx yy s s0 m mult_zero_left binary64_zero)
  then show ?thesis by (simp only: M_def)
qed

section \<open>What each method does to the store\<close>

lemmas vec_method_defs =
  Vector3_new_def Vector3_clone_def Vector3_add_def Vector3_sub_def Vector3_copy_def
  Vector3_multiplyScalar_def Vector3_normalize_def Vector3_clampLength_def
  Vector3_setScalar_def

lemmas ex_defs = ex_store_def ex_target_def ex_pursuer_def ex_sim_def

lemma Spaceship_update_fresh: "fresh (Spaceship_update dt this h) = Suc (fresh h)"
  by (simp add: Spaceship_update_def vec_method_defs Let_def)

lemma Spaceship_update_position:
  assumes "position this < fresh h"
  shows "cells (Spaceship_update dt this h) (position this) =
         addV (cells h (position this)) (multiplyScalar (cells h (velocity this)) dt)"
  using assms by (simp add: Spaceship_update_def vec_method_defs Let_def)

lemma Spaceship_update_frame:
  assumes "r < fresh h" "r \<noteq> position this"
  shows "cells (Spaceship_update dt this h) r = cells h r"
  using assms by (simp add: Spaceship_update_def vec_method_defs Let_def)

lemma Pursuer_pursueTarget_fresh: "fresh (Pursuer_pursueTarget this tgt h) = Suc (Suc (fresh h))"
  by (simp add: Pursuer_pursueTarget_def vec_method_defs Let_def)

lemma Pursuer_pursueTarget_acceleration:
  assumes "acceleration this < fresh h" "position this < fresh h" "velocity this < fresh h"
  shows "cells (Pursuer_pursueTarget this tgt h) (acceleration this) =
         addV (cells h (acceleration this))
           (clampLength
              (subV (multiplyScalar
                       (normalizeV (subV (cells h (position tgt)) (cells h (position this))))
                       (maxSpeed this))
                    (cells h (velocity this)))
              0 (maxSteerForce this))"
  using assms by (simp add: Pursuer_pursueTarget_def vec_method_defs Let_def)

lemma Pursuer_pursueTarget_frame:
  assumes "r < fresh h" "r \<noteq> acceleration this"
  shows "cells (Pursuer_pursueTarget this tgt h) r = cells h r"
  using assms by (simp add: Pursuer_pursueTarget_def vec_method_defs Let_def)

lemma Pursuer_update_fresh: "fresh (Pursuer_update dt this h) = Suc (fresh h)"
  by (simp add: Pursuer_update_def vec_method_defs Let_def)

lemma Pursuer_update_velocity:
  assumes "velocity this < fresh h" "velocity this \<noteq> acceleration this"
    "velocity this \<noteq> position this" "velocity this \<noteq> direction this"
  shows "cells (Pursuer_update dt this h) (velocity this) =
         clampLength (addV (cells h (velocity this))
                        (multiplyScalar (cells h (acceleration this)) dt)) 0 (maxSpeed this)"
  using assms by (simp add: Pursuer_update_def vec_method_defs Let_def)

lemma Pursuer_update_position:
  assumes "velocity this < fresh h" "position this < fresh h" "velocity this \<noteq> acceleration this"
    "velocity this \<noteq> position this" "position this \<noteq> direction this"
     "position this \<noteq> acceleration this" "velocity this \<noteq> direction this"
  shows "cells (Pursuer_update dt this h) (position this) =
         addV (cells h (position this))
           (multiplyScalar (cells (Pursuer_update dt this h) (velocity this)) dt)"
  using assms by (simp add: Pursuer_update_def vec_method_defs Let_def)

lemma Pursuer_update_acceleration:
  assumes "acceleration this \<noteq> direction this"
  shows "cells (Pursuer_update dt this h) (acceleration this) = Vector3 0 0 0"
  using assms by (simp add: Pursuer_update_def vec_method_defs Let_def setScalar_def)

lemma Pursuer_update_direction:
  assumes "velocity this \<noteq> direction this"
  shows "cells (Pursuer_update dt this h) (direction this) =
         normalizeV (cells (Pursuer_update dt this h) (velocity this))"
  using assms by (simp add: Pursuer_update_def vec_method_defs Let_def)

lemma Pursuer_update_frame:
  assumes "r < fresh h" "r \<noteq> acceleration this" "r \<noteq> velocity this" "r \<noteq> position this"
    "r \<noteq> direction this"
  shows "cells (Pursuer_update dt this h) r = cells h r"
  using assms by (simp add: Pursuer_update_def vec_method_defs Let_def)

lemma Pursuer_new_visionAngle:
  "visionAngle (fst (Pursuer_new p v ms msf vd deg h)) = deg * (pi / 180)"
  by (simp add: Pursuer_new_def vec_method_defs Let_def)

lemma vec_method_r_exact:
  "Vector3_add_r (\<lambda>x. x) = Vector3_add" "Vector3_sub_r (\<lambda>x. x) = Vector3_sub"
  "Vector3_multiplyScalar_r (\<lambda>x. x) = Vector3_multiplyScalar"
  "Vector3_normalize_r (\<lambda>x. x) = Vector3_normalize"
  "Vector3_clampLength_r (\<lambda>x. x) = Vector3_clampLength"
  by (intro ext, simp only: vec_method_r_defs vec_method_defs vec_r_exact)+

lemma Pursuer_update_r_exact: "Pursuer_update_r (\<lambda>x. x) dt this h = Pursuer_update dt this h"
  by (simp only: Pursuer_update_r_def Pursuer_update_def vec_method_r_exact)

lemma Pursuer_pursueTarget_r_exact:
  "Pursuer_pursueTarget_r (\<lambda>x. x) this tgt h = Pursuer_pursueTarget this tgt h"
  by (simp only: Pursuer_pursueTarget_r_def Pursuer_pursueTarget_def vec_method_r_exact)

lemma Pursuer_pursueTarget_r_acceleration:
  assumes "acceleration this < fresh h" "position this < fresh h" "velocity this < fresh h"
  shows "cells (Pursuer_pursueTarget_r rnd this tgt h) (acceleration this) =
         addV_r rnd (cells h (acceleration this))
           (clampLength_r rnd
              (subV_r rnd (multiplyScalar_r rnd
                       (normalizeV_r rnd (subV_r rnd (cells h (position tgt)) (cells h (position this))))
                       (maxSpeed this))
                    (cells h (velocity this)))
              0 (maxSteerForce this))"
  using assms by (simp add: Pursuer_pursueTarget_r_def vec_method_r_defs vec_method_defs Let_def)

lemma Pursuer_pursueTarget_r_frame:
  assumes "r < fresh h" "r \<noteq> acceleration this"
  shows "cells (Pursuer_pursueTarget_r rnd this tgt h) r = cells h r"
  using assms by (simp add: Pursuer_pursueTarget_r_def vec_method_r_defs vec_method_defs Let_def)

lemma Pursuer_update_r_velocity:
  assumes "velocity this < fresh h" "velocity this \<noteq> acceleration this"
    "velocity this \<noteq> position this" "velocity this \<noteq> direction this"
  shows "cells (Pursuer_update_r rnd dt this h) (velocity this) =
         clampLength_r rnd (addV_r rnd (cells h (velocity this))
                        (multiplyScalar_r rnd (cells h (acceleration this)) dt)) 0 (maxSpeed this)"
  using assms by (simp add: Pursuer_update_r_def vec_method_r_defs vec_method_defs Let_def)

lemma Pursuer_update_r_position:
  assumes "velocity this < fresh h" "position this < fresh h" "velocity this \<noteq> acceleration this"
    "velocity this \<noteq> position this" "position this \<noteq> direction this"
    "position this \<noteq> acceleration this" "velocity this \<noteq> direction this"
  shows "cells (Pursuer_update_r rnd dt this h) (position this) =
         addV_r rnd (cells h (position this))
           (multiplyScalar_r rnd (cells (Pursuer_update_r rnd dt this h) (velocity this)) dt)"
  using assms by (simp add: Pursuer_update_r_def vec_method_r_defs vec_method_defs Let_def)

lemma Pursuer_update_velocity_exact_bound:
  assumes "wf_pursuer this h" and "0 \<le> maxSpeed this"
  shows "lengthV (cells (Pursuer_update dt this h) (velocity this)) \<le> maxSpeed this"
proof -
  from assms(1) have "velocity this < fresh h" "velocity this \<noteq> acceleration this"
    "velocity this \<noteq> position this" "velocity this \<noteq> direction this"
    by (auto simp: wf_pursuer_def)
  then show ?thesis
    using assms(2) by (simp add: Pursuer_update_velocity lengthV_clampLength)
qed

lemma pursueTarget_exact_force_bound:
  assumes "0 \<le> msf"
  shows "lengthV (clampLength (subV (multiplyScalar (normalizeV (subV tp p)) ms) v) 0 msf) \<le> msf"
  using assms by (simp add: lengthV_clampLength)

section \<open>The detection test\<close>

lemma catch_distance_eq: "catch_distance p t = lengthV (subV p t)"
  by (simp add: catch_distance_def lengthV_def subV_def Let_def)

lemma length_product_eq: "length_product d t = lengthV d * lengthV t"
  by (simp add: length_product_def lengthV_def Let_def real_sqrt_mult)

lemma length_product_zero_iff:
  "length_product d t = 0 \<longleftrightarrow> d = Vector3 0 0 0 \<or> t = Vector3 0 0 0"
  by (simp add: length_product_eq lengthV_zero_iff)

lemma catch_dot_zero: "d = Vector3 0 0 0 \<or> t = Vector3 0 0 0 \<Longrightarrow> catch_dot d t = 0"
  by (auto simp: catch_dot_def)

lemma catch_theta_clamp:
  "catch_theta d t = max (- 1) (min 1 (catch_dot d t / catch_denominator d t))"
  by (simp add: catch_theta_def Let_def max_def min_def)

lemma catch_angle_degenerate:
  assumes "length_product d t = 0"
  shows "catch_angle d t = pi / 2"
proof -
  from assms have "catch_dot d t = 0"
    by (simp add: length_product_zero_iff catch_dot_zero)
  then have "catch_theta d t = 0"
    by (simp add: catch_theta_def)
  then show ?thesis
    by (simp add: catch_angle_def)
qed

lemma catch_angle_spec:
  assumes "d \<noteq> Vector3 0 0 0" "t \<noteq> Vector3 0 0 0"
  shows "catch_angle d t = spec_angle d t"
proof -
  from assms have "length_product d t \<noteq> 0"
    by (simp add: length_product_zero_iff)
  then have "catch_denominator d t = lengthV d * lengthV t"
    by (simp add: catch_denominator_def Let_def length_product_eq)
  then show ?thesis
    by (simp add: catch_angle_def spec_angle_def catch_theta_clamp catch_dot_def dotV_def)
qed

section \<open>One tick refines the specification's tick\<close>

lemma wf_sim_update:
  assumes "wf_sim this h"
  shows "wf_sim (fst (Simulation_update dt (this, h))) (snd (Simulation_update dt (this, h)))"
  using assms 
  by (simp add: Simulation_update_def wf_sim_def sim_refs_def Let_def
      Pursuer_update_fresh Spaceship_update_fresh Pursuer_pursueTarget_fresh)

lemma Simulation_update_snapshot:
  assumes wf: "wf_sim this h"
  shows "snapshot (Simulation_update dt (this, h)) = tick dt (snapshot (this, h))"
proof (cases "finished this")
  case True
  then show ?thesis by (simp add: Simulation_update_def tick_def snapshot_def)
next
  case False
  define P where "P = pursuer this"
  define T where "T = target this"
  define h1 where "h1 = Pursuer_pursueTarget P T h"
  define h2 where "h2 = Spaceship_update dt T h1"
  define h3 where "h3 = Pursuer_update dt P h2"
  from wf have ne: "position T \<noteq> velocity T" "position T \<noteq> position P"
      "position T \<noteq> velocity P" "position T \<noteq> acceleration P"
      "position T \<noteq> direction P" "velocity T \<noteq> position P"
      "velocity T \<noteq> velocity P" "velocity T \<noteq> acceleration P"
      "velocity T \<noteq> direction P" "position P \<noteq> velocity P"
      "position P \<noteq> acceleration P" "position P \<noteq> direction P"
      "velocity P \<noteq> acceleration P" "velocity P \<noteq> direction P"
      "acceleration P \<noteq> direction P"
    and lt: "position T < fresh h" "velocity T < fresh h" "position P < fresh h"
      "velocity P < fresh h" "acceleration P < fresh h" "direction P < fresh h"
    by (simp_all add: wf_sim_def sim_refs_def P_def T_def)
  note d = ne ne [symmetric]
  have f1: "fresh h1 = Suc (Suc (fresh h))"
    by (simp add: h1_def Pursuer_pursueTarget_fresh)
  have f2: "fresh h2 = Suc (Suc (Suc (fresh h)))"
    by (simp add: h2_def Spaceship_update_fresh f1)
  have lt1: "position T < fresh h1" "velocity T < fresh h1" "position P < fresh h1"
      "velocity P < fresh h1" "acceleration P < fresh h1" "direction P < fresh h1"
    using lt by (simp_all add: f1)
  have lt2: "position T < fresh h2" "velocity T < fresh h2" "position P < fresh h2"
      "velocity P < fresh h2" "acceleration P < fresh h2" "direction P < fresh h2"
    using lt by (simp_all add: f2)
  have a1: "cells h1 (acceleration P) =
      addV (cells h (acceleration P))
        (steer (cells h (position T)) (cells h (position P)) (cells h (velocity P))
           (maxSpeed P) (maxSteerForce P))"
    unfolding h1_def steer_def using lt by (simp add: Pursuer_pursueTarget_acceleration)
  have r1: "cells h1 r = cells h r" if "r < fresh h" "r \<noteq> acceleration P" for r
    unfolding h1_def using that by (rule Pursuer_pursueTarget_frame)
  have tp2: "cells h2 (position T) =
      addV (cells h (position T)) (multiplyScalar (cells h (velocity T)) dt)"
    using lt lt1 d by (simp add: h2_def Spaceship_update_position r1)
  have r2: "cells h2 r = cells h1 r" if "r < fresh h" "r \<noteq> position T" for r
    unfolding h2_def using that by (simp add: Spaceship_update_frame f1)
  have r3: "cells h3 r = cells h2 r"
    if "r < fresh h" "r \<noteq> acceleration P" "r \<noteq> velocity P" "r \<noteq> position P"
      "r \<noteq> direction P" for r
    unfolding h3_def using that by (simp add: Pursuer_update_frame f2)
  have v3: "cells h3 (velocity P) =
      clampLength (addV (cells h (velocity P))
                     (multiplyScalar (cells h1 (acceleration P)) dt)) 0 (maxSpeed P)"
    using lt lt2 d by (simp add: h3_def Pursuer_update_velocity r2 r1)
  have p3: "cells h3 (position P) =
      addV (cells h (position P)) (multiplyScalar (cells h3 (velocity P)) dt)"
    using lt lt2 d unfolding h3_def
    by (subst Pursuer_update_position) (simp_all add: r2 r1)
  have a3: "cells h3 (acceleration P) = Vector3 0 0 0"
    using d by (simp add: h3_def Pursuer_update_acceleration)
  have d3: "cells h3 (direction P) = normalizeV (cells h3 (velocity P))"
    using d by (simp add: h3_def Pursuer_update_direction)
  have t3: "cells h3 (position T) = cells h2 (position T)"
    "cells h3 (velocity T) = cells h (velocity T)"
    using lt d by (simp_all add: r3 r2 r1)
  have upd: "Simulation_update dt (this, h) =
      (this\<lparr>time := time this + dt, finished := Pursuer_didCatchTarget P T h3\<rparr>, h3)"
    using False by (simp add: Simulation_update_def Let_def h3_def h2_def h1_def P_def T_def)
  show ?thesis
    unfolding upd using False
    by (simp add: snapshot_def tick_def Let_def Pursuer_didCatchTarget_def detected_def
        P_def [symmetric] T_def [symmetric] a1 tp2 v3 p3 a3 d3 t3)
qed

lemma Simulation_update_refs:
  "sim_refs (fst (Simulation_update dt (this, h))) = sim_refs this"
  by (simp add: Simulation_update_def sim_refs_def Let_def)

lemma Simulation_update_fresh:
  "fresh h \<le> fresh (snd (Simulation_update dt (this, h)))"
  by (simp add: Simulation_update_def Let_def
      Pursuer_update_fresh Spaceship_update_fresh Pursuer_pursueTarget_fresh)

lemma Simulation_update_frame:
  assumes "r < fresh h" "r \<notin> set (sim_refs this)"
  shows "cells (snd (Simulation_update dt (this, h))) r = cells h r"
  using assms
  by (simp add: Simulation_update_def Let_def sim_refs_def Pursuer_update_frame
      Spaceship_update_frame Pursuer_pursueTarget_frame
      Spaceship_update_fresh Pursuer_pursueTarget_fresh)

lemma run_snapshot:
  "wf_sim sim h \<Longrightarrow> snapshot (run dts (sim, h)) = ticks dts (snapshot (sim, h))"
proof (induction dts arbitrary: sim h)
  case Nil
  then show ?case by simp
next
  case (Cons dt dts)
  obtain sim' h' where step: "Simulation_update dt (sim, h) = (sim', h')"
    by (cases "Simulation_update dt (sim, h)")
  from wf_sim_update [OF Cons.prems, of dt] step have wf': "wf_sim sim' h'" by simp
  from Simulation_update_snapshot [OF Cons.prems, of dt] step
  have "snapshot (sim', h') = tick dt (snapshot (sim, h))" by simp
  with Cons.IH [OF wf'] show ?case by (simp add: step)
qed

lemma run_frame:
  "r < fresh h \<Longrightarrow> r \<notin> set (sim_refs sim) \<Longrightarrow> cells (snd (run dts (sim, h))) r = cells h r"
proof (induction dts arbitrary: sim h)
  case Nil
  then show ?case by simp
next
  case (Cons dt dts)
  obtain sim' h' where step: "Simulation_update dt (sim, h) = (sim', h')"
    by (cases "Simulation_update dt (sim, h)")
  from Simulation_update_refs [of dt sim h] step have refs: "sim_refs sim' = sim_refs sim"
    by simp
  from Simulation_update_fresh [of h dt sim] step have "fresh h \<le> fresh h'" by simp
  with Cons.prems have lt: "r < fresh h'" by simp
  from Simulation_update_frame [OF Cons.prems, of dt] step have "cells h' r = cells h r"
    by simp
  with Cons.IH [of h' sim'] lt refs Cons.prems show ?case by (simp add: step)
qed

lemma run_fresh: "fresh h \<le> fresh (snd (run dts (sim, h)))"
proof (induction dts arbitrary: sim h)
  case Nil
  then show ?case by simp
next
  case (Cons dt dts)
  obtain sim' h' where step: "Simulation_update dt (sim, h) = (sim', h')"
    by (cases "Simulation_update dt (sim, h)")
  from Simulation_update_fresh [of h dt sim] step have "fresh h \<le> fresh h'" by simp
  with Cons.IH [of h' sim'] show ?case by (simp add: step)
qed

lemma run_fresh_state: "fresh (snd st) \<le> fresh (snd (run dts st))"
  using run_fresh [of "snd st" dts "fst st"] by simp

lemma run_refs: "sim_refs (fst (run dts (sim, h))) = sim_refs sim"
proof (induction dts arbitrary: sim h)
  case Nil
  then show ?case by simp
next
  case (Cons dt dts)
  obtain sim' h' where step: "Simulation_update dt (sim, h) = (sim', h')"
    by (cases "Simulation_update dt (sim, h)")
  from Simulation_update_refs [of dt sim h] step have "sim_refs sim' = sim_refs sim"
    by simp
  with Cons.IH [of sim' h'] show ?case by (simp add: step)
qed

lemma Simulation_new_fresh: "fresh (snd (Simulation_new settings h)) = fresh h + 6"
  by (simp add: Simulation_new_def Pursuer_new_def vec_method_defs Let_def)

lemma Simulation_new_refs:
  "sim_refs (fst (Simulation_new settings h)) =
     [fresh h, fresh h + 1, fresh h + 2, fresh h + 3, fresh h + 4, fresh h + 5]"
  by (simp add: Simulation_new_def Pursuer_new_def Spaceship_new_def vec_method_defs Let_def
      sim_refs_def)

lemma Simulation_new_wf:
  "wf_sim (fst (Simulation_new settings h)) (snd (Simulation_new settings h))"
  by (simp add: wf_sim_def Simulation_new_refs Simulation_new_fresh)

lemma Simulation_new_frame:
  "r < fresh h \<Longrightarrow> cells (snd (Simulation_new settings h)) r = cells h r"
  by (simp add: Simulation_new_def Pursuer_new_def vec_method_defs Let_def)

lemma Simulation_new_snapshot:
  assumes "wf_settings settings h"
  shows "snapshot (Simulation_new settings h) = initial (settings_values settings h)"
  using assms
  by (simp add: Simulation_new_def Pursuer_new_def Spaceship_new_def vec_method_defs Let_def
      snapshot_def initial_def settings_values_def wf_settings_def)

lemma snapshot_store_update:
  assumes "r \<notin> set (sim_refs sim)"
  shows "snapshot (sim, h\<lparr>cells := (cells h)(r := v)\<rparr>) = snapshot (sim, h)"
  using assms by (auto simp: snapshot_def sim_refs_def)

lemma wf_sim_store_update: "wf_sim sim (h\<lparr>cells := c\<rparr>) = wf_sim sim h"
  by (simp add: wf_sim_def)

text \<open>
  Every state that the program reaches, by the constructor and any number of updates,
  is a well-formed object graph; so is the pursuer in it.
\<close>

lemma run_wf:
  "wf_sim sim h \<Longrightarrow> wf_sim (fst (run dts (sim, h))) (snd (run dts (sim, h)))"
proof (induction dts arbitrary: sim h)
  case Nil
  then show ?case by simp
next
  case (Cons dt dts)
  obtain sim' h' where step: "Simulation_update dt (sim, h) = (sim', h')"
    by (cases "Simulation_update dt (sim, h)")
  from wf_sim_update [OF Cons.prems, of dt] step have "wf_sim sim' h'" by simp
  from Cons.IH [OF this] show ?case by (simp add: step)
qed

lemma reachable_wf:
  "wf_sim (fst (run dts (Simulation_new settings h))) (snd (run dts (Simulation_new settings h)))"
  using run_wf [OF Simulation_new_wf, of dts settings h] by simp

lemma wf_sim_pursuer: "wf_sim sim h \<Longrightarrow> wf_pursuer (pursuer sim) h"
  by (simp add: wf_sim_def wf_pursuer_def sim_refs_def)

section \<open>The claims\<close>

subsection \<open>C1\<close>

text \<open>
  Claim C1. \<^verbatim>\<open>Simulation.update(dt)\<close> is a no-op when \<open>finished\<close> is true. Otherwise
  it is, in this order: \<open>time\<close> increases by \<open>dt\<close>, \<open>pursueTarget\<close> adds the
  steering force to the pursuer's acceleration, the target is advanced, the pursuer is
  advanced, and \<open>finished\<close> becomes the result of \<open>didCatchTarget\<close>. On a simulation
  whose six vectors are distinct allocated objects, the values read off afterwards are
  those of the specification's tick: the force is computed from the target's position
  before the target moves, and the detection test sees the positions after both moved.
\<close>

theorem Simulation_update_sequence:
  "(finished this \<longrightarrow> Simulation_update dt (this, h) = (this, h)) \<and>
   (\<not> finished this \<longrightarrow>
      Simulation_update dt (this, h) =
        (let h1 = Pursuer_pursueTarget (pursuer this) (target this) h;
             h2 = Spaceship_update dt (target this) h1;
             h3 = Pursuer_update dt (pursuer this) h2
         in (this\<lparr>time := time this + dt,
                  finished := Pursuer_didCatchTarget (pursuer this) (target this) h3\<rparr>, h3))) \<and>
   (wf_sim this h \<longrightarrow>
      snapshot (Simulation_update dt (this, h)) = tick dt (snapshot (this, h)))"
proof (intro conjI impI)
  assume "finished this"
  then show "Simulation_update dt (this, h) = (this, h)"
    by (simp add: Simulation_update_def)
next
  assume "\<not> finished this"
  then show "Simulation_update dt (this, h) =
      (let h1 = Pursuer_pursueTarget (pursuer this) (target this) h;
           h2 = Spaceship_update dt (target this) h1;
           h3 = Pursuer_update dt (pursuer this) h2
       in (this\<lparr>time := time this + dt,
                finished := Pursuer_didCatchTarget (pursuer this) (target this) h3\<rparr>, h3))"
    by (simp add: Simulation_update_def Let_def)
next
  assume "wf_sim this h"
  then show "snapshot (Simulation_update dt (this, h)) = tick dt (snapshot (this, h))"
    by (rule Simulation_update_snapshot)
qed

theorem Simulation_update_sequence_witness:
  "finished (ex_sim True) \<and>
   Simulation_update (1 / 60) (ex_sim True, ex_store) = (ex_sim True, ex_store) \<and>
   \<not> finished (ex_sim False) \<and> wf_sim (ex_sim False) ex_store \<and>
   snapshot (Simulation_update (1 / 60) (ex_sim False, ex_store)) =
     tick (1 / 60) (snapshot (ex_sim False, ex_store))"
proof -
  have fin: "finished (ex_sim True)" and unf: "\<not> finished (ex_sim False)"
    by (simp_all add: ex_sim_def)
  have wf: "wf_sim (ex_sim False) ex_store"
    by (simp add: ex_defs wf_sim_def sim_refs_def)
  from Simulation_update_sequence [of "ex_sim True" "1 / 60" ex_store] fin
  have "Simulation_update (1 / 60) (ex_sim True, ex_store) = (ex_sim True, ex_store)"
    by blast
  moreover from Simulation_update_sequence [of "ex_sim False" "1 / 60" ex_store] wf
  have "snapshot (Simulation_update (1 / 60) (ex_sim False, ex_store)) =
      tick (1 / 60) (snapshot (ex_sim False, ex_store))"
    by blast
  ultimately show ?thesis using fin unf wf by blast
qed

subsection \<open>C2\<close>

text \<open>
  Claim C2. \<^verbatim>\<open>didCatchTarget\<close> returns false whenever the distance between the
  pursuer's and the target's positions exceeds \<open>visionDistance\<close>. Within that range,
  and with a direction and a target position that are not the zero vector, it returns
  true iff the arc cosine of the clamped quotient of \<open>dot(direction, target.position)\<close>
  by \<open>|direction| * |target.position|\<close>, taken against the target's absolute position,
  is at most \<open>visionAngle / 2\<close>. Where one of the two vectors is zero the quotient of
  the claim divides by zero; the code then compares a right angle with
  \<open>visionAngle / 2\<close>.
\<close>

theorem didCatchTarget_cone_test:
  "(visionDistance this
      < lengthV (subV (cells h (position this)) (cells h (position tgt))) \<longrightarrow>
      \<not> Pursuer_didCatchTarget this tgt h) \<and>
   (lengthV (subV (cells h (position this)) (cells h (position tgt))) \<le> visionDistance this \<and>
    cells h (direction this) \<noteq> Vector3 0 0 0 \<and> cells h (position tgt) \<noteq> Vector3 0 0 0 \<longrightarrow>
      (Pursuer_didCatchTarget this tgt h \<longleftrightarrow>
         spec_angle (cells h (direction this)) (cells h (position tgt)) \<le> visionAngle this / 2)) \<and>
   (lengthV (subV (cells h (position this)) (cells h (position tgt))) \<le> visionDistance this \<and>
    (cells h (direction this) = Vector3 0 0 0 \<or> cells h (position tgt) = Vector3 0 0 0) \<longrightarrow>
      (Pursuer_didCatchTarget this tgt h \<longleftrightarrow> pi / 2 \<le> visionAngle this / 2))"
  by (auto simp: Pursuer_didCatchTarget_def catch_distance_eq catch_angle_spec
      catch_angle_degenerate length_product_zero_iff)

theorem didCatchTarget_cone_test_witness:
  "visionDistance ex_pursuer
     < lengthV (subV (cells ex_store_far (position ex_pursuer))
                 (cells ex_store_far (position ex_target))) \<and>
   \<not> Pursuer_didCatchTarget ex_pursuer ex_target ex_store_far \<and>
   lengthV (subV (cells ex_store (position ex_pursuer)) (cells ex_store (position ex_target)))
     \<le> visionDistance ex_pursuer \<and>
   cells ex_store (direction ex_pursuer) \<noteq> Vector3 0 0 0 \<and>
   cells ex_store (position ex_target) \<noteq> Vector3 0 0 0 \<and>
   Pursuer_didCatchTarget ex_pursuer ex_target ex_store \<and>
   lengthV (subV (cells ex_store0 (position ex_pursuer)) (cells ex_store0 (position ex_target)))
     \<le> visionDistance ex_pursuer \<and>
   cells ex_store0 (direction ex_pursuer) = Vector3 0 0 0 \<and>
   \<not> Pursuer_didCatchTarget ex_pursuer ex_target ex_store0"
proof -
  have far: "visionDistance ex_pursuer
      < lengthV (subV (cells ex_store_far (position ex_pursuer))
                  (cells ex_store_far (position ex_target)))"
    by (simp add: ex_defs ex_store_far_def subV_def lengthV_def sqrt_2500)
  have near: "lengthV (subV (cells ex_store (position ex_pursuer))
        (cells ex_store (position ex_target))) \<le> visionDistance ex_pursuer"
    and d: "cells ex_store (direction ex_pursuer) \<noteq> Vector3 0 0 0"
    and t: "cells ex_store (position ex_target) \<noteq> Vector3 0 0 0"
    by (simp_all add: ex_defs subV_def lengthV_def sqrt_9)
  have ang: "spec_angle (cells ex_store (direction ex_pursuer)) (cells ex_store (position ex_target))
      \<le> visionAngle ex_pursuer / 2"
    using pi_gt_zero by (simp add: ex_defs spec_angle_def dotV_def lengthV_def sqrt_9)
  have near0: "lengthV (subV (cells ex_store0 (position ex_pursuer))
        (cells ex_store0 (position ex_target))) \<le> visionDistance ex_pursuer"
    and d0: "cells ex_store0 (direction ex_pursuer) = Vector3 0 0 0"
    by (simp_all add: ex_store0_def ex_pursuer_def subV_def lengthV_def)
  have va: "\<not> pi / 2 \<le> visionAngle ex_pursuer / 2"
    using pi_gt_zero by (simp add: ex_pursuer_def)
  from didCatchTarget_cone_test [of ex_pursuer ex_store_far ex_target] far
  have "\<not> Pursuer_didCatchTarget ex_pursuer ex_target ex_store_far"
    by blast
  moreover from didCatchTarget_cone_test [of ex_pursuer ex_store ex_target] near d t ang
  have "Pursuer_didCatchTarget ex_pursuer ex_target ex_store"
    by blast
  moreover from didCatchTarget_cone_test [of ex_pursuer ex_store0 ex_target] near0 d0 va
  have "\<not> Pursuer_didCatchTarget ex_pursuer ex_target ex_store0"
    by blast
  ultimately show ?thesis using far near d t near0 d0 by blast
qed

subsection \<open>C3\<close>

text \<open>
  Claim C3, as stated: after \<^verbatim>\<open>Pursuer.update(dt)\<close> the length of the velocity is at
  most \<open>maxSpeed\<close>. This fails in the arithmetic of the program: from the velocity
  \<open>(20, 15, 0)\<close>, the acceleration \<open>(1, 0, 0)\<close>, \<open>dt = 1\<close> and \<open>maxSpeed = 20\<close>, the
  clamp computed in double precision leaves a velocity whose length exceeds 20, both
  exactly and as the program's \<open>length()\<close> measures it (20.000000000000004).
\<close>

theorem Pursuer_update_speed_overshoot:
  "wf_pursuer ex_pursuer ex_store \<and> 0 \<le> maxSpeed ex_pursuer \<and>
   cells (Pursuer_update_r binary64 1 ex_pursuer ex_store) (velocity ex_pursuer) =
     Vector3 (1145228049282985 / 70368744177664) (3272080140808529 / 281474976710656) 0 \<and>
   maxSpeed ex_pursuer
     < lengthV (cells (Pursuer_update_r binary64 1 ex_pursuer ex_store) (velocity ex_pursuer)) \<and>
   lengthV_r binary64 (cells (Pursuer_update_r binary64 1 ex_pursuer ex_store) (velocity ex_pursuer))
     = 5629499534213121 / 281474976710656 \<and>
   maxSpeed ex_pursuer
     < lengthV_r binary64
         (cells (Pursuer_update_r binary64 1 ex_pursuer ex_store) (velocity ex_pursuer))"
proof -
  have wf: "wf_pursuer ex_pursuer ex_store" and ms: "0 \<le> maxSpeed ex_pursuer"
    by (simp_all add: ex_defs wf_pursuer_def)
  have b1: "binary64 1 = 1"
    using binary64_scaledI [of 1 52 4503599627370496] by simp
  have b21: "binary64 21 = 21"
    using binary64_scaledI [of 21 48 5910974510923776] by simp
  have b15: "binary64 15 = 15"
    using binary64_scaledI [of 15 49 8444249301319680] by simp
  have v: "addV_r binary64 (cells ex_store (velocity ex_pursuer))
      (multiplyScalar_r binary64 (cells ex_store (acceleration ex_pursuer)) 1) = Vector3 21 15 0"
    by (simp add: ex_defs addV_r_def multiplyScalar_r_def b1 b21 b15 binary64_zero)
  have "cells (Pursuer_update_r binary64 1 ex_pursuer ex_store) (velocity ex_pursuer) =
      clampLength_r binary64 (addV_r binary64 (cells ex_store (velocity ex_pursuer))
        (multiplyScalar_r binary64 (cells ex_store (acceleration ex_pursuer)) 1)) 0
        (maxSpeed ex_pursuer)"
    by (rule Pursuer_update_r_velocity) (simp_all add: ex_defs)
  also have "\<dots> = clampLength_r binary64 (Vector3 21 15 0) 0 20"
    unfolding v by (simp add: ex_pursuer_def)
  finally have vel: "cells (Pursuer_update_r binary64 1 ex_pursuer ex_store) (velocity ex_pursuer) =
      Vector3 (1145228049282985 / 70368744177664) (3272080140808529 / 281474976710656) 0"
    by (simp only: clampLength_r_overshoot)
  have "20 < lengthV (Vector3 (1145228049282985 / 70368744177664) (3272080140808529 / 281474976710656) 0)"
    unfolding lengthV_def by (rule real_less_rsqrt) (simp add: power2_eq_square)
  then have "maxSpeed ex_pursuer
      < lengthV (cells (Pursuer_update_r binary64 1 ex_pursuer ex_store) (velocity ex_pursuer))"
    unfolding vel by (simp add: ex_pursuer_def)
  moreover have m: "lengthV_r binary64
      (cells (Pursuer_update_r binary64 1 ex_pursuer ex_store) (velocity ex_pursuer))
      = 5629499534213121 / 281474976710656"
    unfolding vel by (rule measured_length_overshoot)
  moreover have "maxSpeed ex_pursuer
      < lengthV_r binary64
          (cells (Pursuer_update_r binary64 1 ex_pursuer ex_store) (velocity ex_pursuer))"
    unfolding m by (simp add: ex_pursuer_def)
  ultimately show ?thesis using wf ms vel by blast
qed

text \<open>
  Claim C3, amended: for every pursuer whose four vectors are distinct allocated objects
  and whose \<open>maxSpeed\<close> is not negative, and for every \<open>dt\<close>, after
  \<^verbatim>\<open>Pursuer.update(dt)\<close> the velocity is the clamp of velocity plus acceleration times
  \<open>dt\<close>, whatever these were before; computed in double precision its length is at
  most \<open>maxSpeed * (1 + 2\<^sup>-\<^sup>5\<^sup>0)\<close> (at most \<open>maxSpeed * (1 + 2\<^sup>-\<^sup>4\<^sup>9)\<close> as the program's
  \<open>length()\<close> measures it), and the position has moved by this clamped velocity times
  \<open>dt\<close>. Computed in exact arithmetic the same holds with a length of at most
  \<open>maxSpeed\<close>.
\<close>

theorem Pursuer_update_speed_bound_rounded:
  assumes "wf_pursuer this h" and "0 \<le> maxSpeed this"
  shows "cells (Pursuer_update_r binary64 dt this h) (velocity this) =
           clampLength_r binary64
             (addV_r binary64 (cells h (velocity this))
                (multiplyScalar_r binary64 (cells h (acceleration this)) dt))
             0 (maxSpeed this) \<and>
         lengthV (cells (Pursuer_update_r binary64 dt this h) (velocity this))
           \<le> maxSpeed this * (1 + 1 / 2 ^ 50) \<and>
         lengthV_r binary64 (cells (Pursuer_update_r binary64 dt this h) (velocity this))
           \<le> maxSpeed this * (1 + 1 / 2 ^ 49) \<and>
         cells (Pursuer_update_r binary64 dt this h) (position this) =
           addV_r binary64 (cells h (position this))
             (multiplyScalar_r binary64
                (cells (Pursuer_update_r binary64 dt this h) (velocity this)) dt) \<and>
         cells (Pursuer_update dt this h) (velocity this) =
           clampLength (addV (cells h (velocity this))
                          (multiplyScalar (cells h (acceleration this)) dt)) 0 (maxSpeed this) \<and>
         lengthV (cells (Pursuer_update dt this h) (velocity this)) \<le> maxSpeed this \<and>
         cells (Pursuer_update dt this h) (position this) =
           addV (cells h (position this))
             (multiplyScalar (cells (Pursuer_update dt this h) (velocity this)) dt)"
proof -
  from assms(1) have ne: "velocity this \<noteq> acceleration this" "velocity this \<noteq> position this"
      "velocity this \<noteq> direction this" "position this \<noteq> direction this"
      "position this \<noteq> acceleration this"
    and lt: "velocity this < fresh h" "position this < fresh h"
    by (auto simp: wf_pursuer_def)
  have v: "cells (Pursuer_update_r binary64 dt this h) (velocity this) =
      clampLength_r binary64
        (addV_r binary64 (cells h (velocity this))
           (multiplyScalar_r binary64 (cells h (acceleration this)) dt))
        0 (maxSpeed this)"
    using lt ne by (simp add: Pursuer_update_r_velocity)
  have p: "cells (Pursuer_update_r binary64 dt this h) (position this) =
      addV_r binary64 (cells h (position this))
        (multiplyScalar_r binary64
           (cells (Pursuer_update_r binary64 dt this h) (velocity this)) dt)"
    using lt ne by (simp add: Pursuer_update_r_position)
  have b: "lengthV (cells (Pursuer_update_r binary64 dt this h) (velocity this))
      \<le> maxSpeed this * (1 + 1 / 2 ^ 50)"
    unfolding v using assms(2) by (rule clampLength_r_bound)
  have bm: "lengthV_r binary64 (cells (Pursuer_update_r binary64 dt this h) (velocity this))
      \<le> maxSpeed this * (1 + 1 / 2 ^ 49)"
    unfolding v using assms(2) by (rule clampLength_r_measured_bound)
  have ev: "cells (Pursuer_update dt this h) (velocity this) =
      clampLength (addV (cells h (velocity this))
                     (multiplyScalar (cells h (acceleration this)) dt)) 0 (maxSpeed this)"
    using lt ne by (simp add: Pursuer_update_velocity)
  have ep: "cells (Pursuer_update dt this h) (position this) =
      addV (cells h (position this))
        (multiplyScalar (cells (Pursuer_update dt this h) (velocity this)) dt)"
    using lt ne by (simp add: Pursuer_update_position)
  have eb: "lengthV (cells (Pursuer_update dt this h) (velocity this)) \<le> maxSpeed this"
    using assms by (rule Pursuer_update_velocity_exact_bound)
  from v b bm p ev eb ep show ?thesis by blast
qed

theorem Pursuer_update_speed_bound_rounded_witness:
  "wf_pursuer ex_pursuer ex_store \<and> 0 \<le> maxSpeed ex_pursuer \<and>
   maxSpeed ex_pursuer < lengthV (cells ex_store (velocity ex_pursuer)) \<and>
   lengthV (cells (Pursuer_update_r binary64 1 ex_pursuer ex_store) (velocity ex_pursuer))
     \<le> maxSpeed ex_pursuer * (1 + 1 / 2 ^ 50)"
proof -
  have wf: "wf_pursuer ex_pursuer ex_store" and ms: "0 \<le> maxSpeed ex_pursuer"
    by (simp_all add: ex_defs wf_pursuer_def)
  have "maxSpeed ex_pursuer < lengthV (cells ex_store (velocity ex_pursuer))"
    by (simp add: ex_defs lengthV_def sqrt_625)
  with Pursuer_update_speed_bound_rounded [OF wf ms, of 1] wf ms show ?thesis by blast
qed

subsection \<open>C4\<close>

text \<open>
  Claim C4, as stated: the force that \<^verbatim>\<open>pursueTarget\<close> adds to the acceleration has
  length at most \<open>maxSteerForce\<close>. This fails in the arithmetic of the program: for a
  pursuer at the origin with velocity \<open>(0, 4, 0)\<close>, zero acceleration, \<open>maxSpeed = 20\<close>
  and \<open>maxSteerForce = 5\<close>, and the target at \<open>(3, 0, 0)\<close>, the force computed in
  double precision, which is the acceleration afterwards, has a length that exceeds 5,
  both exactly and as the program's \<open>length()\<close> measures it (5.000000000000001).
\<close>

theorem pursueTarget_force_overshoot:
  "position ex_pursuer < fresh ex_store_steer \<and> velocity ex_pursuer < fresh ex_store_steer \<and>
   acceleration ex_pursuer < fresh ex_store_steer \<and> 0 \<le> maxSteerForce ex_pursuer \<and>
   cells ex_store_steer (position ex_target) \<noteq> cells ex_store_steer (position ex_pursuer) \<and>
   cells ex_store_steer (acceleration ex_pursuer) = Vector3 0 0 0 \<and>
   cells (Pursuer_pursueTarget_r binary64 ex_pursuer ex_target ex_store_steer)
     (acceleration ex_pursuer) = Vector3 (2760089228530211 / 562949953421312) (- (8832285531296675 / 9007199254740992)) 0 \<and>
   maxSteerForce ex_pursuer
     < lengthV (cells (Pursuer_pursueTarget_r binary64 ex_pursuer ex_target ex_store_steer)
         (acceleration ex_pursuer)) \<and>
   lengthV_r binary64 (cells (Pursuer_pursueTarget_r binary64 ex_pursuer ex_target ex_store_steer)
       (acceleration ex_pursuer)) = 5629499534213121 / 1125899906842624 \<and>
   maxSteerForce ex_pursuer
     < lengthV_r binary64
         (cells (Pursuer_pursueTarget_r binary64 ex_pursuer ex_target ex_store_steer)
            (acceleration ex_pursuer))"
proof -
  have lt: "acceleration ex_pursuer < fresh ex_store_steer" "position ex_pursuer < fresh ex_store_steer"
    "velocity ex_pursuer < fresh ex_store_steer"
    and msf: "0 \<le> maxSteerForce ex_pursuer"
    and ne: "cells ex_store_steer (position ex_target) \<noteq> cells ex_store_steer (position ex_pursuer)"
    and z: "cells ex_store_steer (acceleration ex_pursuer) = Vector3 0 0 0"
    by (simp_all add: ex_defs ex_store_steer_def)
  have b3: "binary64 3 = 3"
    using binary64_scaledI [of 3 51 6755399441055744] by simp
  have b20: "binary64 20 = 20"
    using binary64_scaledI [of 20 48 5629499534213120] by simp
  have bm4: "binary64 (- 4) = - 4"
    using binary64_scaledI [of "- 4" 50 "- 4503599627370496"] by simp
  have fx: "binary64 (2760089228530211 / 562949953421312) = 2760089228530211 / 562949953421312"
    using binary64_scaledI [of "2760089228530211 / 562949953421312" 50 "5520178457060422"] by simp
  have fy: "binary64 (- (8832285531296675 / 9007199254740992)) = - (8832285531296675 / 9007199254740992)"
    using binary64_scaledI [of "- (8832285531296675 / 9007199254740992)" 53 "- 8832285531296675"] by simp
  have off: "subV_r binary64 (cells ex_store_steer (position ex_target))
      (cells ex_store_steer (position ex_pursuer)) = Vector3 3 0 0"
    by (simp add: ex_defs ex_store_steer_def subV_r_def b3 binary64_zero)
  have des: "subV_r binary64 (multiplyScalar_r binary64 (Vector3 1 0 0) (maxSpeed ex_pursuer))
      (cells ex_store_steer (velocity ex_pursuer)) = Vector3 20 (- 4) 0"
    by (simp add: ex_defs ex_store_steer_def subV_r_def multiplyScalar_r_def b20 bm4 binary64_zero)
  have "cells (Pursuer_pursueTarget_r binary64 ex_pursuer ex_target ex_store_steer)
      (acceleration ex_pursuer) =
      addV_r binary64 (cells ex_store_steer (acceleration ex_pursuer))
        (clampLength_r binary64
           (subV_r binary64 (multiplyScalar_r binary64
              (normalizeV_r binary64 (subV_r binary64 (cells ex_store_steer (position ex_target))
                 (cells ex_store_steer (position ex_pursuer))))
              (maxSpeed ex_pursuer))
              (cells ex_store_steer (velocity ex_pursuer)))
           0 (maxSteerForce ex_pursuer))"
    using lt by (rule Pursuer_pursueTarget_r_acceleration)
  also have "\<dots> = addV_r binary64 (Vector3 0 0 0) (clampLength_r binary64 (Vector3 20 (- 4) 0) 0 5)"
    unfolding off normalizeV_r_example des z by (simp add: ex_pursuer_def)
  also have "\<dots> = Vector3 (2760089228530211 / 562949953421312) (- (8832285531296675 / 9007199254740992)) 0"
    unfolding clampLength_r_overshoot_steer by (simp add: addV_r_def fx fy binary64_zero)
  finally have acc: "cells (Pursuer_pursueTarget_r binary64 ex_pursuer ex_target ex_store_steer)
      (acceleration ex_pursuer) = Vector3 (2760089228530211 / 562949953421312) (- (8832285531296675 / 9007199254740992)) 0" .
  have "5 < lengthV (Vector3 (2760089228530211 / 562949953421312) (- (8832285531296675 / 9007199254740992)) 0)"
    unfolding lengthV_def by (rule real_less_rsqrt) (simp add: power2_eq_square)
  then have "maxSteerForce ex_pursuer
      < lengthV (cells (Pursuer_pursueTarget_r binary64 ex_pursuer ex_target ex_store_steer)
          (acceleration ex_pursuer))"
    unfolding acc by (simp add: ex_pursuer_def)
  moreover have m: "lengthV_r binary64
      (cells (Pursuer_pursueTarget_r binary64 ex_pursuer ex_target ex_store_steer)
         (acceleration ex_pursuer)) = 5629499534213121 / 1125899906842624"
    unfolding acc by (rule measured_length_overshoot_steer)
  moreover have "maxSteerForce ex_pursuer
      < lengthV_r binary64
          (cells (Pursuer_pursueTarget_r binary64 ex_pursuer ex_target ex_store_steer)
             (acceleration ex_pursuer))"
    unfolding m by (simp add: ex_pursuer_def)
  ultimately show ?thesis using lt msf ne z acc by blast
qed

text \<open>
  Claim C4, amended: \<^verbatim>\<open>pursueTarget(target)\<close> adds to the acceleration exactly
  \<open>clampLength(normalize(target.position - position) * maxSpeed - velocity, 0, maxSteerForce)\<close>
  and changes no allocated vector other than the acceleration. Computed in double
  precision, the force added has length at most \<open>maxSteerForce * (1 + 2\<^sup>-\<^sup>5\<^sup>0)\<close> (at most
  \<open>maxSteerForce * (1 + 2\<^sup>-\<^sup>4\<^sup>9)\<close> as the program's \<open>length()\<close> measures it), for a
  \<open>maxSteerForce\<close> that is not negative. Computed in exact arithmetic, the same formula
  and frame hold, the normalised offset is a unit vector when the two positions differ,
  and the length is at most \<open>maxSteerForce\<close>.
\<close>

theorem pursueTarget_adds_rounded_steering_force:
  assumes "position this < fresh h" and "velocity this < fresh h"
    and "acceleration this < fresh h"
  shows "cells (Pursuer_pursueTarget_r binary64 this tgt h) (acceleration this) =
           addV_r binary64 (cells h (acceleration this))
             (clampLength_r binary64
                (subV_r binary64
                   (multiplyScalar_r binary64
                      (normalizeV_r binary64
                         (subV_r binary64 (cells h (position tgt)) (cells h (position this))))
                      (maxSpeed this))
                   (cells h (velocity this)))
                0 (maxSteerForce this)) \<and>
         (0 \<le> maxSteerForce this \<longrightarrow>
            lengthV
             (clampLength_r binary64
                (subV_r binary64
                   (multiplyScalar_r binary64
                      (normalizeV_r binary64
                         (subV_r binary64 (cells h (position tgt)) (cells h (position this))))
                      (maxSpeed this))
                   (cells h (velocity this)))
                0 (maxSteerForce this))
              \<le> maxSteerForce this * (1 + 1 / 2 ^ 50)) \<and>
         (0 \<le> maxSteerForce this \<longrightarrow>
            lengthV_r binary64
             (clampLength_r binary64
                (subV_r binary64
                   (multiplyScalar_r binary64
                      (normalizeV_r binary64
                         (subV_r binary64 (cells h (position tgt)) (cells h (position this))))
                      (maxSpeed this))
                   (cells h (velocity this)))
                0 (maxSteerForce this))
              \<le> maxSteerForce this * (1 + 1 / 2 ^ 49)) \<and>
         (\<forall>r. r < fresh h \<and> r \<noteq> acceleration this \<longrightarrow>
              cells (Pursuer_pursueTarget_r binary64 this tgt h) r = cells h r) \<and>
         cells (Pursuer_pursueTarget this tgt h) (acceleration this) =
           addV (cells h (acceleration this))
             (clampLength
                (subV (multiplyScalar
                         (normalizeV (subV (cells h (position tgt)) (cells h (position this))))
                         (maxSpeed this))
                      (cells h (velocity this)))
                0 (maxSteerForce this)) \<and>
         (cells h (position tgt) \<noteq> cells h (position this) \<longrightarrow>
            lengthV (normalizeV (subV (cells h (position tgt)) (cells h (position this)))) = 1) \<and>
         (0 \<le> maxSteerForce this \<longrightarrow>
            lengthV
             (clampLength
                (subV (multiplyScalar
                         (normalizeV (subV (cells h (position tgt)) (cells h (position this))))
                         (maxSpeed this))
                      (cells h (velocity this)))
                0 (maxSteerForce this))
              \<le> maxSteerForce this) \<and>
         (\<forall>r. r < fresh h \<and> r \<noteq> acceleration this \<longrightarrow>
              cells (Pursuer_pursueTarget this tgt h) r = cells h r)"
proof (intro conjI impI allI)
  show "cells (Pursuer_pursueTarget_r binary64 this tgt h) (acceleration this) =
      addV_r binary64 (cells h (acceleration this))
        (clampLength_r binary64
                (subV_r binary64
                   (multiplyScalar_r binary64
                      (normalizeV_r binary64
                         (subV_r binary64 (cells h (position tgt)) (cells h (position this))))
                      (maxSpeed this))
                   (cells h (velocity this)))
                0 (maxSteerForce this))"
    using assms by (simp add: Pursuer_pursueTarget_r_acceleration)
next
  assume "0 \<le> maxSteerForce this"
  then show "lengthV
      (clampLength_r binary64
                (subV_r binary64
                   (multiplyScalar_r binary64
                      (normalizeV_r binary64
                         (subV_r binary64 (cells h (position tgt)) (cells h (position this))))
                      (maxSpeed this))
                   (cells h (velocity this)))
                0 (maxSteerForce this))
       \<le> maxSteerForce this * (1 + 1 / 2 ^ 50)"
    by (rule clampLength_r_bound)
next
  assume "0 \<le> maxSteerForce this"
  then show "lengthV_r binary64
      (clampLength_r binary64
                (subV_r binary64
                   (multiplyScalar_r binary64
                      (normalizeV_r binary64
                         (subV_r binary64 (cells h (position tgt)) (cells h (position this))))
                      (maxSpeed this))
                   (cells h (velocity this)))
                0 (maxSteerForce this))
       \<le> maxSteerForce this * (1 + 1 / 2 ^ 49)"
    by (rule clampLength_r_measured_bound)
next
  fix r
  assume "r < fresh h \<and> r \<noteq> acceleration this"
  then show "cells (Pursuer_pursueTarget_r binary64 this tgt h) r = cells h r"
    by (simp add: Pursuer_pursueTarget_r_frame)
next
  show "cells (Pursuer_pursueTarget this tgt h) (acceleration this) =
      addV (cells h (acceleration this))
        (clampLength
                (subV (multiplyScalar
                         (normalizeV (subV (cells h (position tgt)) (cells h (position this))))
                         (maxSpeed this))
                      (cells h (velocity this)))
                0 (maxSteerForce this))"
    using assms by (simp add: Pursuer_pursueTarget_acceleration)
next
  assume "cells h (position tgt) \<noteq> cells h (position this)"
  then have "subV (cells h (position tgt)) (cells h (position this)) \<noteq> Vector3 0 0 0"
    by (cases "cells h (position tgt)"; cases "cells h (position this)") (simp add: subV_def)
  then show "lengthV (normalizeV (subV (cells h (position tgt)) (cells h (position this)))) = 1"
    by (rule lengthV_normalizeV)
next
  assume "0 \<le> maxSteerForce this"
  then show "lengthV
      (clampLength
                (subV (multiplyScalar
                         (normalizeV (subV (cells h (position tgt)) (cells h (position this))))
                         (maxSpeed this))
                      (cells h (velocity this)))
                0 (maxSteerForce this))
       \<le> maxSteerForce this"
    by (rule pursueTarget_exact_force_bound)
next
  fix r
  assume "r < fresh h \<and> r \<noteq> acceleration this"
  then show "cells (Pursuer_pursueTarget this tgt h) r = cells h r"
    by (simp add: Pursuer_pursueTarget_frame)
qed

theorem pursueTarget_adds_rounded_steering_force_witness:
  "position ex_pursuer < fresh ex_store_steer \<and> velocity ex_pursuer < fresh ex_store_steer \<and>
   acceleration ex_pursuer < fresh ex_store_steer \<and> 0 \<le> maxSteerForce ex_pursuer \<and>
   velocity ex_pursuer < fresh ex_store_steer \<and> velocity ex_pursuer \<noteq> acceleration ex_pursuer \<and>
   cells (Pursuer_pursueTarget_r binary64 ex_pursuer ex_target ex_store_steer) (velocity ex_pursuer) =
     cells ex_store_steer (velocity ex_pursuer) \<and>
   lengthV
     (clampLength_r binary64
        (subV_r binary64
           (multiplyScalar_r binary64
              (normalizeV_r binary64
                 (subV_r binary64 (cells ex_store_steer (position ex_target))
                    (cells ex_store_steer (position ex_pursuer))))
              (maxSpeed ex_pursuer))
           (cells ex_store_steer (velocity ex_pursuer)))
        0 (maxSteerForce ex_pursuer))
     \<le> maxSteerForce ex_pursuer * (1 + 1 / 2 ^ 50)"
proof -
  have lt: "position ex_pursuer < fresh ex_store_steer" "velocity ex_pursuer < fresh ex_store_steer"
    "acceleration ex_pursuer < fresh ex_store_steer"
    and msf: "0 \<le> maxSteerForce ex_pursuer"
    and v: "velocity ex_pursuer \<noteq> acceleration ex_pursuer"
    by (simp_all add: ex_defs ex_store_steer_def)
  note spec = pursueTarget_adds_rounded_steering_force [OF lt, of ex_target]
  from spec lt v have "cells (Pursuer_pursueTarget_r binary64 ex_pursuer ex_target ex_store_steer)
      (velocity ex_pursuer) = cells ex_store_steer (velocity ex_pursuer)"
    by blast
  moreover from spec msf have "lengthV
     (clampLength_r binary64
        (subV_r binary64
           (multiplyScalar_r binary64
              (normalizeV_r binary64
                 (subV_r binary64 (cells ex_store_steer (position ex_target))
                    (cells ex_store_steer (position ex_pursuer))))
              (maxSpeed ex_pursuer))
           (cells ex_store_steer (velocity ex_pursuer)))
        0 (maxSteerForce ex_pursuer))
     \<le> maxSteerForce ex_pursuer * (1 + 1 / 2 ^ 50)"
    by blast
  ultimately show ?thesis using lt msf v by blast
qed

subsection \<open>C5\<close>

text \<open>
  Claim C5. Once \<open>finished\<close> is true, any sequence of further
  \<^verbatim>\<open>Simulation.update(dt)\<close> calls, for arbitrary \<open>dt\<close>, leaves the simulation and the
  whole store as they are: time, positions and velocities of both bodies are unchanged.
\<close>

theorem finished_is_terminal:
  assumes "finished this"
  shows "run dts (this, h) = (this, h)"
  using assms by (induction dts) (simp_all add: Simulation_update_def)

theorem finished_is_terminal_witness:
  "finished (ex_sim True) \<and> run [1 / 60, 2, - 3] (ex_sim True, ex_store) = (ex_sim True, ex_store)"
  using finished_is_terminal [of "ex_sim True" "[1 / 60, 2, - 3]" ex_store]
  by (simp add: ex_sim_def)

subsection \<open>C6\<close>

text \<open>
  Claim C6. For every \<open>dt\<close>, negative ones included, \<^verbatim>\<open>Spaceship.update(dt)\<close> sets
  the position to the position before plus the velocity times \<open>dt\<close>, and changes no
  other allocated vector; the velocity, an object of its own, is unchanged. The function
  is total: it has no failing branch.
\<close>

theorem Spaceship_update_integrates:
  assumes "position this < fresh h" and "velocity this < fresh h"
    and "position this \<noteq> velocity this"
  shows "cells (Spaceship_update dt this h) (position this) =
           addV (cells h (position this)) (multiplyScalar (cells h (velocity this)) dt) \<and>
         cells (Spaceship_update dt this h) (velocity this) = cells h (velocity this) \<and>
         (\<forall>r. r < fresh h \<and> r \<noteq> position this \<longrightarrow>
              cells (Spaceship_update dt this h) r = cells h r)"
  using assms by (simp add: Spaceship_update_position Spaceship_update_frame)

theorem Spaceship_update_integrates_witness:
  "position ex_target < fresh ex_store \<and> velocity ex_target < fresh ex_store \<and>
   position ex_target \<noteq> velocity ex_target \<and>
   cells (Spaceship_update (- 2) ex_target ex_store) (position ex_target) = Vector3 (- 17) 0 0 \<and>
   cells (Spaceship_update (- 2) ex_target ex_store) (velocity ex_target) = Vector3 10 0 0"
proof -
  have lt: "position ex_target < fresh ex_store" "velocity ex_target < fresh ex_store"
    and ne: "position ex_target \<noteq> velocity ex_target"
    by (simp_all add: ex_defs)
  have p: "addV (cells ex_store (position ex_target))
      (multiplyScalar (cells ex_store (velocity ex_target)) (- 2)) = Vector3 (- 17) 0 0"
    and v: "cells ex_store (velocity ex_target) = Vector3 10 0 0"
    by (simp_all add: ex_defs addV_def multiplyScalar_def)
  from Spaceship_update_integrates [OF lt ne, of "- 2"] p v lt ne show ?thesis
    by simp
qed

subsection \<open>C7\<close>

text \<open>
  Claim C7, as stated: when the denominator \<open>|direction| * |target.position|\<close> is
  exactly zero, substituting \<open>pi / 2\<close> for it yields an angle strictly less than
  \<open>pi / 2\<close>. This fails: a pursuer without heading and a target at \<open>(3, 0, 0)\<close> have
  a zero denominator, and the angle computed is not less than \<open>pi / 2\<close>.
\<close>

theorem zero_denominator_small_angle_counterexample:
  "length_product (Vector3 0 0 0) (Vector3 3 0 0) = 0 \<and>
   \<not> catch_angle (Vector3 0 0 0) (Vector3 3 0 0) < pi / 2"
proof -
  have z: "length_product (Vector3 0 0 0) (Vector3 3 0 0) = 0"
    by (simp add: length_product_def)
  from catch_angle_degenerate [OF z] z show ?thesis by simp
qed

text \<open>
  Claim C7, amended: when the denominator is exactly zero, \<open>pi / 2\<close> is substituted
  for it, the dot product is zero as well, and the angle computed is exactly \<open>pi / 2\<close>,
  a right angle.
\<close>

theorem zero_denominator_right_angle:
  assumes "length_product d t = 0"
  shows "catch_denominator d t = pi / 2 \<and> catch_dot d t = 0 \<and> catch_angle d t = pi / 2"
  using assms
  by (simp add: catch_denominator_def catch_angle_degenerate catch_dot_zero
      length_product_zero_iff)

theorem zero_denominator_right_angle_witness:
  "length_product (Vector3 0 0 0) (Vector3 3 0 0) = 0 \<and>
   catch_denominator (Vector3 0 0 0) (Vector3 3 0 0) = pi / 2 \<and>
   catch_angle (Vector3 0 0 0) (Vector3 3 0 0) = pi / 2"
  using zero_denominator_right_angle [of "Vector3 0 0 0" "Vector3 3 0 0"]
  by (simp add: length_product_def)

subsection \<open>C8\<close>

text \<open>
  Claim C8. Two simulations constructed from settings with identical field values and
  driven by the same sequence of \<open>dt\<close> values show identical values in every field
  (target and pursuer positions and velocities, time, finished flag): the run is a
  function of the settings values and the \<open>dt\<close> sequence, namely the specification's
  ticks from the initial snapshot. The constructor copies the settings vectors rather
  than aliasing them: the six vectors of the simulation are the six cells that the
  constructor allocates, none of them a vector of the settings; no cell allocated before
  the construction is changed by the construction or by the run; and overwriting such a
  cell after the construction, as an edit of the settings does, changes nothing in the
  run.
\<close>

theorem Simulation_deterministic:
  assumes "wf_settings s1 h1" and "wf_settings s2 h2"
    and "settings_values s1 h1 = settings_values s2 h2"
  shows "snapshot (run dts (Simulation_new s1 h1)) = snapshot (run dts (Simulation_new s2 h2)) \<and>
         snapshot (run dts (Simulation_new s1 h1)) = ticks dts (initial (settings_values s1 h1)) \<and>
         (\<forall>r. r < fresh h1 \<longrightarrow> cells (snd (run dts (Simulation_new s1 h1))) r = cells h1 r) \<and>
         set (sim_refs (fst (run dts (Simulation_new s1 h1)))) \<inter>
           {targetVelocity s1, pursuerPosition s1, pursuerVelocity s1} = {} \<and>
         sim_refs (fst (run dts (Simulation_new s1 h1))) =
           [fresh h1, fresh h1 + 1, fresh h1 + 2, fresh h1 + 3, fresh h1 + 4, fresh h1 + 5] \<and>
         (\<forall>r v. r < fresh h1 \<longrightarrow>
            snapshot (run dts (fst (Simulation_new s1 h1),
                               (snd (Simulation_new s1 h1))
                                 \<lparr>cells := (cells (snd (Simulation_new s1 h1)))(r := v)\<rparr>)) =
            snapshot (run dts (Simulation_new s1 h1)))"
proof -
  have snap: "snapshot (run dts (Simulation_new s h)) = ticks dts (initial (settings_values s h))"
    if "wf_settings s h" for s h
  proof -
    obtain sim h' where new: "Simulation_new s h = (sim, h')"
      by (cases "Simulation_new s h")
    from Simulation_new_wf [of s h] new have "wf_sim sim h'" by simp
    from run_snapshot [OF this, of dts] Simulation_new_snapshot [OF that] new
    show ?thesis by simp
  qed
  obtain sim h' where new: "Simulation_new s1 h1 = (sim, h')"
    by (cases "Simulation_new s1 h1")
  from Simulation_new_refs [of s1 h1] new
  have refs: "sim_refs sim = [fresh h1, fresh h1 + 1, fresh h1 + 2, fresh h1 + 3, fresh h1 + 4,
      fresh h1 + 5]"
    by simp
  from Simulation_new_wf [of s1 h1] new have wf: "wf_sim sim h'" by simp
  have frame: "cells (snd (run dts (Simulation_new s1 h1))) r = cells h1 r" if "r < fresh h1" for r
  proof -
    from refs that have notin: "r \<notin> set (sim_refs sim)"
      by simp
    from Simulation_new_fresh [of s1 h1] new that have lt: "r < fresh h'"
      by simp
    from Simulation_new_frame [OF that, of s1] new have "cells h' r = cells h1 r"
      by simp
    with run_frame [OF lt notin, of dts] show ?thesis by (simp add: new)
  qed
  have run_refs': "sim_refs (fst (run dts (Simulation_new s1 h1))) =
      [fresh h1, fresh h1 + 1, fresh h1 + 2, fresh h1 + 3, fresh h1 + 4, fresh h1 + 5]"
    using run_refs [of dts sim h'] refs by (simp add: new)
  have disjoint: "set (sim_refs (fst (run dts (Simulation_new s1 h1)))) \<inter>
      {targetVelocity s1, pursuerPosition s1, pursuerVelocity s1} = {}"
    unfolding run_refs' using assms(1) by (auto simp: wf_settings_def)
  have edit: "snapshot (run dts (fst (Simulation_new s1 h1),
        (snd (Simulation_new s1 h1))\<lparr>cells := (cells (snd (Simulation_new s1 h1)))(r := v)\<rparr>)) =
      snapshot (run dts (Simulation_new s1 h1))" if "r < fresh h1" for r v
  proof -
    from refs that have notin: "r \<notin> set (sim_refs sim)"
      by simp
    have "snapshot (run dts (sim, h'\<lparr>cells := (cells h')(r := v)\<rparr>)) =
        ticks dts (snapshot (sim, h'\<lparr>cells := (cells h')(r := v)\<rparr>))"
      using wf by (intro run_snapshot) (simp add: wf_sim_store_update)
    also have "\<dots> = ticks dts (snapshot (sim, h'))"
      by (simp only: snapshot_store_update [OF notin])
    also have "\<dots> = snapshot (run dts (sim, h'))"
      using wf by (simp add: run_snapshot)
    finally show ?thesis by (simp add: new)
  qed
  from snap [OF assms(1)] snap [OF assms(2)] assms(3) frame disjoint run_refs' edit
  show ?thesis by simp
qed

theorem Simulation_deterministic_witness:
  "wf_settings (fst (Settings_new empty_store)) (snd (Settings_new empty_store)) \<and>
   wf_settings (fst (Settings_new empty_store))
     (snd (run [1 / 60, 1 / 30]
        (Simulation_new (fst (Settings_new empty_store)) (snd (Settings_new empty_store))))) \<and>
   settings_values (fst (Settings_new empty_store)) (snd (Settings_new empty_store)) =
     settings_values (fst (Settings_new empty_store))
       (snd (run [1 / 60, 1 / 30]
          (Simulation_new (fst (Settings_new empty_store)) (snd (Settings_new empty_store))))) \<and>
   snapshot (run [1 / 60, 1 / 30]
      (Simulation_new (fst (Settings_new empty_store)) (snd (Settings_new empty_store)))) =
   snapshot (run [1 / 60, 1 / 30]
      (Simulation_new (fst (Settings_new empty_store))
         (snd (run [1 / 60, 1 / 30]
            (Simulation_new (fst (Settings_new empty_store)) (snd (Settings_new empty_store))))))) \<and>
   set (sim_refs (fst (run [1 / 60, 1 / 30]
      (Simulation_new (fst (Settings_new empty_store)) (snd (Settings_new empty_store)))))) \<inter>
     {targetVelocity (fst (Settings_new empty_store)),
      pursuerPosition (fst (Settings_new empty_store)),
      pursuerVelocity (fst (Settings_new empty_store))} = {}"
proof -
  define s where "s = fst (Settings_new empty_store)"
  define h1 where "h1 = snd (Settings_new empty_store)"
  define h2 where "h2 = snd (run [1 / 60, 1 / 30] (Simulation_new s h1))"
  have refs: "targetVelocity s = 0" "pursuerPosition s = 1" "pursuerVelocity s = 2"
    and f1: "fresh h1 = 3"
    by (simp_all add: s_def h1_def Settings_new_def vec_method_defs empty_store_def Let_def)
  have wf1: "wf_settings s h1"
    by (simp add: wf_settings_def refs f1)
  have "fresh (snd (Simulation_new s h1)) \<le> fresh h2"
    unfolding h2_def by (rule run_fresh_state)
  then have f2: "3 \<le> fresh h2"
    by (simp add: Simulation_new_fresh f1)
  then have wf2: "wf_settings s h2"
    by (simp add: wf_settings_def refs)
  note first = Simulation_deterministic [OF wf1 wf1 refl, of "[1 / 60, 1 / 30]"]
  from first have "\<forall>r. r < fresh h1 \<longrightarrow> cells h2 r = cells h1 r"
    unfolding h2_def by blast
  then have same: "cells h2 r = cells h1 r" if "r < 3" for r
    using that by (simp add: f1)
  then have sv: "settings_values s h1 = settings_values s h2"
    by (simp add: settings_values_def refs)
  from first have disjoint: "set (sim_refs (fst (run [1 / 60, 1 / 30] (Simulation_new s h1)))) \<inter>
      {targetVelocity s, pursuerPosition s, pursuerVelocity s} = {}"
    by blast
  from Simulation_deterministic [OF wf1 wf2 sv, of "[1 / 60, 1 / 30]"]
  have "snapshot (run [1 / 60, 1 / 30] (Simulation_new s h1)) =
      snapshot (run [1 / 60, 1 / 30] (Simulation_new s h2))"
    by blast
  with wf1 wf2 sv disjoint show ?thesis
    unfolding h2_def h1_def s_def by blast
qed

subsection \<open>C9\<close>

text \<open>
  Claim C9. When the target's position equals the pursuer's, \<^verbatim>\<open>pursueTarget\<close> still
  returns: the offset has length zero, \<open>normalize\<close> divides by 1 and yields the zero
  vector, the desired velocity is the zero vector, and the force added to the
  acceleration is the negated velocity, clamped in length to \<open>maxSteerForce\<close>.
\<close>

theorem pursueTarget_coincident:
  assumes "position this < fresh h" and "velocity this < fresh h"
    and "acceleration this < fresh h"
    and "cells h (position tgt) = cells h (position this)"
  shows "length_or_1 (subV (cells h (position tgt)) (cells h (position this))) = 1 \<and>
         normalizeV (subV (cells h (position tgt)) (cells h (position this))) = Vector3 0 0 0 \<and>
         cells (Pursuer_pursueTarget this tgt h) (acceleration this) =
           addV (cells h (acceleration this))
             (clampLength (negV (cells h (velocity this))) 0 (maxSteerForce this))"
proof -
  have z: "subV a a = Vector3 0 0 0" for a
    by (simp add: subV_def)
  have l: "length_or_1 (Vector3 0 0 0) = 1"
    by (simp add: length_or_1_def lengthV_def)
  have n: "subV (multiplyScalar (Vector3 0 0 0) s) v = negV v" for s v
    by (simp add: subV_def multiplyScalar_def negV_def)
  show ?thesis
    using assms by (simp add: Pursuer_pursueTarget_acceleration z l n normalizeV_zero)
qed

theorem pursueTarget_coincident_witness:
  "position ex_pursuer < fresh ex_store_same \<and> velocity ex_pursuer < fresh ex_store_same \<and>
   acceleration ex_pursuer < fresh ex_store_same \<and>
   cells ex_store_same (position ex_target) = cells ex_store_same (position ex_pursuer) \<and>
   cells (Pursuer_pursueTarget ex_pursuer ex_target ex_store_same) (acceleration ex_pursuer) =
     Vector3 (- 3) (- 3) 0"
proof -
  have lt: "position ex_pursuer < fresh ex_store_same" "velocity ex_pursuer < fresh ex_store_same"
    "acceleration ex_pursuer < fresh ex_store_same"
    and same: "cells ex_store_same (position ex_target) = cells ex_store_same (position ex_pursuer)"
    by (simp_all add: ex_defs ex_store_same_def)
  have f: "clampLength (negV (cells ex_store_same (velocity ex_pursuer))) 0
      (maxSteerForce ex_pursuer) = Vector3 (- 4) (- 3) 0"
    by (simp add: ex_defs ex_store_same_def negV_def clampLength_def divideScalar_def
        multiplyScalar_def length_or_1_def lengthV_def sqrt_625)
  from pursueTarget_coincident [OF lt same]
  have "cells (Pursuer_pursueTarget ex_pursuer ex_target ex_store_same) (acceleration ex_pursuer) =
      addV (cells ex_store_same (acceleration ex_pursuer)) (Vector3 (- 4) (- 3) 0)"
    by (simp add: f)
  then have "cells (Pursuer_pursueTarget ex_pursuer ex_target ex_store_same)
      (acceleration ex_pursuer) = Vector3 (- 3) (- 3) 0"
    by (simp add: ex_defs ex_store_same_def addV_def)
  with lt same show ?thesis by blast
qed

subsection \<open>C10\<close>

text \<open>
  Claim C10. If the target sits at the world origin, or the pursuer's direction is the
  zero vector, the dot product is zero and the angle is exactly \<open>pi / 2\<close>, so
  \<^verbatim>\<open>didCatchTarget\<close> returns true iff the target is in range and
  \<open>visionAngle / 2\<close> is at least \<open>pi / 2\<close>. A pursuer built by the constructor from a
  degree value in \<open>(0, 90]\<close> has a vision angle of at most \<open>pi / 2\<close>, and never detects
  such a target.
\<close>

theorem didCatchTarget_degenerate:
  "(cells h (position tgt) = Vector3 0 0 0 \<or> cells h (direction this) = Vector3 0 0 0 \<longrightarrow>
      catch_dot (cells h (direction this)) (cells h (position tgt)) = 0 \<and>
      catch_angle (cells h (direction this)) (cells h (position tgt)) = pi / 2 \<and>
      (Pursuer_didCatchTarget this tgt h \<longleftrightarrow>
         catch_distance (cells h (position this)) (cells h (position tgt)) \<le> visionDistance this \<and>
         pi / 2 \<le> visionAngle this / 2)) \<and>
   (0 < deg \<and> deg \<le> 90 \<and>
    (cells h (position tgt) = Vector3 0 0 0 \<or>
     cells h (direction (fst (Pursuer_new p v ms msf vd deg h0))) = Vector3 0 0 0) \<longrightarrow>
      visionAngle (fst (Pursuer_new p v ms msf vd deg h0)) \<le> pi / 2 \<and>
      \<not> Pursuer_didCatchTarget (fst (Pursuer_new p v ms msf vd deg h0)) tgt h)"
proof -
  have ang: "catch_angle (cells g (direction q)) (cells g (position tgt)) = pi / 2"
    if "cells g (position tgt) = Vector3 0 0 0 \<or> cells g (direction q) = Vector3 0 0 0"
    for g :: store and q :: Pursuer
    using that by (intro catch_angle_degenerate) (auto simp: length_product_zero_iff)
  have catch: "Pursuer_didCatchTarget q tgt g \<longleftrightarrow>
      catch_distance (cells g (position q)) (cells g (position tgt)) \<le> visionDistance q \<and>
      pi / 2 \<le> visionAngle q / 2"
    if "cells g (position tgt) = Vector3 0 0 0 \<or> cells g (direction q) = Vector3 0 0 0"
    for g :: store and q :: Pursuer
    by (simp add: Pursuer_didCatchTarget_def ang [OF that])
  have small: "deg * (pi / 180) \<le> pi / 2" if "deg \<le> 90"
  proof -
    from that have "deg * (pi / 180) \<le> 90 * (pi / 180)"
      by (intro mult_right_mono) simp_all
    then show ?thesis by simp
  qed
  have wide: "\<not> pi / 2 \<le> (deg * (pi / 180)) / 2" if "deg \<le> 90"
    using small [OF that] pi_gt_zero by linarith
  have built: "\<not> Pursuer_didCatchTarget (fst (Pursuer_new p v ms msf vd deg h0)) tgt h"
    if "deg \<le> 90"
      and "cells h (position tgt) = Vector3 0 0 0 \<or>
           cells h (direction (fst (Pursuer_new p v ms msf vd deg h0))) = Vector3 0 0 0"
    using wide [OF that(1)] by (simp add: catch [OF that(2)] Pursuer_new_visionAngle)
  show ?thesis
  proof (rule conjI; rule impI)
    assume a: "cells h (position tgt) = Vector3 0 0 0 \<or> cells h (direction this) = Vector3 0 0 0"
    then have "catch_dot (cells h (direction this)) (cells h (position tgt)) = 0"
      by (intro catch_dot_zero) blast
    with ang [OF a] catch [OF a]
    show "catch_dot (cells h (direction this)) (cells h (position tgt)) = 0 \<and>
      catch_angle (cells h (direction this)) (cells h (position tgt)) = pi / 2 \<and>
      (Pursuer_didCatchTarget this tgt h \<longleftrightarrow>
         catch_distance (cells h (position this)) (cells h (position tgt)) \<le> visionDistance this \<and>
         pi / 2 \<le> visionAngle this / 2)"
      by blast
  next
    assume b: "0 < deg \<and> deg \<le> 90 \<and>
      (cells h (position tgt) = Vector3 0 0 0 \<or>
       cells h (direction (fst (Pursuer_new p v ms msf vd deg h0))) = Vector3 0 0 0)"
    then have "\<not> Pursuer_didCatchTarget (fst (Pursuer_new p v ms msf vd deg h0)) tgt h"
      by (intro built) simp_all
    moreover from b have "visionAngle (fst (Pursuer_new p v ms msf vd deg h0)) \<le> pi / 2"
      by (simp add: Pursuer_new_visionAngle small)
    ultimately
    show "visionAngle (fst (Pursuer_new p v ms msf vd deg h0)) \<le> pi / 2 \<and>
      \<not> Pursuer_didCatchTarget (fst (Pursuer_new p v ms msf vd deg h0)) tgt h"
      by blast
  qed
qed

theorem didCatchTarget_degenerate_witness:
  "cells ex_store0 (position ex_target) = Vector3 0 0 0 \<and>
   catch_angle (cells ex_store0 (direction ex_pursuer)) (cells ex_store0 (position ex_target))
     = pi / 2 \<and>
   \<not> Pursuer_didCatchTarget ex_pursuer ex_target ex_store0 \<and>
   (0 :: real) < 45 \<and> (45 :: real) \<le> 90 \<and>
   \<not> Pursuer_didCatchTarget (fst (Pursuer_new 2 3 20 5 5 45 ex_store0)) ex_target ex_store0"
proof -
  have z: "cells ex_store0 (position ex_target) = Vector3 0 0 0"
    by (simp add: ex_store0_def)
  have va: "\<not> pi / 2 \<le> visionAngle ex_pursuer / 2"
    using pi_gt_zero by (simp add: ex_pursuer_def)
  note spec = didCatchTarget_degenerate [of ex_store0 ex_target ex_pursuer 45 2 3 20 5 5 ex_store0]
  from spec z have "catch_angle (cells ex_store0 (direction ex_pursuer))
      (cells ex_store0 (position ex_target)) = pi / 2"
    by blast
  moreover from spec z va have "\<not> Pursuer_didCatchTarget ex_pursuer ex_target ex_store0"
    by blast
  moreover from spec z
  have "\<not> Pursuer_didCatchTarget (fst (Pursuer_new 2 3 20 5 5 45 ex_store0)) ex_target ex_store0"
    by simp
  ultimately show ?thesis using z by simp
qed

end
